theory Spec2Isabelle
  imports Main
begin

unbundle bit_operations_syntax

section \<open>Values exchanged with the provider and the store\<close>

text \<open>
  Both programs (\<^verbatim>\<open>service.py\<close>, the aiohttp server, and \<^verbatim>\<open>lambda_oauth.py\<close>, the
  AWS Lambda handler) pass around what \<^verbatim>\<open>json()\<close> returned: Python values built from
  \<^verbatim>\<open>None\<close>, booleans, integers, strings, lists and dictionaries. A dictionary is the
  association list of its items, read with \<open>map_of\<close>. Python floats are left out of the
  model, and a \<open>char\<close> stands for one ASCII character of a Python \<^verbatim>\<open>str\<close>.
\<close>

datatype json =
    JNull
  | JBool bool
  | JInt int
  | JStr string
  | JList "json list"
  | JObj "(string \<times> json) list"

text \<open>The exceptions that can escape the handlers.\<close>

datatype py_error =
    ValueError
  | KeyError
  | TypeError
  | AttributeError
  | IndexError
  | OtherException

subsection \<open>Python built-ins used by the handlers\<close>

definition digit_char :: "nat \<Rightarrow> char" where
  "digit_char d = ''0123456789'' ! d"

fun dec_nat :: "nat \<Rightarrow> string" where
  "dec_nat n = (if n < 10 then [digit_char n] else dec_nat (n div 10) @ [digit_char (n mod 10)])"

declare dec_nat.simps [simp del]

definition dec_int :: "int \<Rightarrow> string" where
  "dec_int i = (if i < 0 then CHR ''-'' # dec_nat (nat (- i)) else dec_nat (nat i))"

definition hex_digit :: "nat \<Rightarrow> char" where
  "hex_digit d = ''0123456789ABCDEF'' ! d"

fun hex_nat :: "nat \<Rightarrow> string" where
  "hex_nat n = (if n < 16 then [hex_digit n] else hex_nat (n div 16) @ [hex_digit (n mod 16)])"

declare hex_nat.simps [simp del]

text \<open>\<^verbatim>\<open>format(n, '04X')\<close>: upper-case hexadecimal, the sign first, zero-filled to width 4.\<close>

definition format_04X :: "int \<Rightarrow> string" where
  "format_04X n =
     (let sign = (if n < 0 then ''-'' else []);
          digits = hex_nat (nat \<bar>n\<bar>)
      in sign @ replicate (4 - length sign - length digits) CHR ''0'' @ digits)"

text \<open>Reading a string of upper-case hexadecimal digits back as a number.\<close>

definition hex_digit_value :: "char \<Rightarrow> nat" where
  "hex_digit_value c =
     (let n = (of_char c :: nat) in if 48 \<le> n \<and> n \<le> 57 then n - 48 else n - 55)"

definition hex_value :: "string \<Rightarrow> nat" where
  "hex_value s = foldl (\<lambda>acc c. 16 * acc + hex_digit_value c) 0 s"

definition lower_hex2 :: "nat \<Rightarrow> string" where
  "lower_hex2 n = [''0123456789abcdef'' ! (n div 16), ''0123456789abcdef'' ! (n mod 16)]"

text \<open>\<^verbatim>\<open>repr\<close> of a \<^verbatim>\<open>str\<close>, as it appears inside the \<^verbatim>\<open>str\<close> of a list or dict.\<close>

definition repr_char :: "char \<Rightarrow> char \<Rightarrow> string" where
  "repr_char q c =
     (if c = q \<or> c = CHR 0x5C then [CHR 0x5C, c]
      else if c = CHR 0x09 then [CHR 0x5C, CHR ''t'']
      else if c = CHR 0x0A then [CHR 0x5C, CHR ''n'']
      else if c = CHR 0x0D then [CHR 0x5C, CHR ''r'']
      else if (of_char c :: nat) < 32 \<or> 127 \<le> (of_char c :: nat)
        then [CHR 0x5C, CHR ''x''] @ lower_hex2 (of_char c)
      else [c])"

definition repr_str :: "string \<Rightarrow> string" where
  "repr_str s =
     (let q = (if CHR 0x27 \<in> set s \<and> CHR 0x22 \<notin> set s then CHR 0x22 else CHR 0x27)
      in [q] @ concat (map (repr_char q) s) @ [q])"

fun join :: "string \<Rightarrow> string list \<Rightarrow> string" where
  "join sep [] = []"
| "join sep [x] = x"
| "join sep (x # y # ys) = x @ sep @ join sep (y # ys)"

primrec py_repr :: "json \<Rightarrow> string" where
  "py_repr JNull = ''None''"
| "py_repr (JBool b) = (if b then ''True'' else ''False'')"
| "py_repr (JInt i) = dec_int i"
| "py_repr (JStr s) = repr_str s"
| "py_repr (JList xs) = ''['' @ join '', '' (map py_repr xs) @ '']''"
| "py_repr (JObj kvs) =
     ''{'' @ join '', '' (map (\<lambda>kv. repr_str (fst kv) @ '': '' @ snd kv)
                            (map (map_prod id py_repr) kvs)) @ ''}''"

text \<open>\<^verbatim>\<open>str(v)\<close>, which is also what an f-string and \<^verbatim>\<open>str.format\<close> substitute.\<close>

definition py_str :: "json \<Rightarrow> string" where
  "py_str v = (case v of JStr s \<Rightarrow> s | _ \<Rightarrow> py_repr v)"

text \<open>Truth value of a Python object in \<^verbatim>\<open>if x:\<close> and \<^verbatim>\<open>if not x:\<close>.\<close>

fun truthy :: "json \<Rightarrow> bool" where
  "truthy JNull = False"
| "truthy (JBool b) = b"
| "truthy (JInt i) = (i \<noteq> 0)"
| "truthy (JStr s) = (s \<noteq> [])"
| "truthy (JList xs) = (xs \<noteq> [])"
| "truthy (JObj kvs) = (kvs \<noteq> [])"

text \<open>
  The same test on an optional string (\<^verbatim>\<open>None\<close> or a \<^verbatim>\<open>str\<close>): the string when it is
  present and not empty.
\<close>

fun truthy_str :: "string option \<Rightarrow> string option" where
  "truthy_str None = None"
| "truthy_str (Some s) = (if s = [] then None else Some s)"

definition char_upper :: "char \<Rightarrow> char" where
  "char_upper c =
     (case map_of (zip ''abcdefghijklmnopqrstuvwxyz'' ''ABCDEFGHIJKLMNOPQRSTUVWXYZ'') c of
        Some u \<Rightarrow> u
      | None \<Rightarrow> c)"

text \<open>\<^verbatim>\<open>str.upper()\<close> on ASCII text.\<close>

definition str_upper :: "string \<Rightarrow> string" where
  "str_upper s = map char_upper s"

definition is_py_space :: "char \<Rightarrow> bool" where
  "is_py_space c = (c = CHR '' '' \<or> (9 \<le> (of_char c :: nat) \<and> (of_char c :: nat) \<le> 13))"

definition is_digit :: "char \<Rightarrow> bool" where
  "is_digit c = (48 \<le> (of_char c :: nat) \<and> (of_char c :: nat) \<le> 57)"

definition strip :: "string \<Rightarrow> string" where
  "strip s = rev (dropWhile is_py_space (rev (dropWhile is_py_space s)))"

text \<open>Decimal digits, with single underscores allowed between digits.\<close>

fun digits_ok :: "string \<Rightarrow> bool" where
  "digits_ok [] = False"
| "digits_ok [c] = is_digit c"
| "digits_ok (c # d # r) =
     (if is_digit c then (if d = CHR ''_'' then digits_ok r else digits_ok (d # r)) else False)"

definition digits_value :: "string \<Rightarrow> int" where
  "digits_value ds =
     foldl (\<lambda>acc c. 10 * acc + (int (of_char c) - 48)) 0 (filter is_digit ds)"

text \<open>
  \<^verbatim>\<open>int(s)\<close> for a \<^verbatim>\<open>str\<close>: surrounding white space, an optional sign, then digits;
  anything else is a \<^verbatim>\<open>ValueError\<close>. (The interpreter's cap on the number of digits is
  not modelled.)
\<close>

definition int_of_str :: "string \<Rightarrow> py_error + int" where
  "int_of_str s =
     (let t = strip s;
          neg = (case t of [] \<Rightarrow> False | c # r \<Rightarrow> c = CHR ''-'');
          ds = (case t of [] \<Rightarrow> [] | c # r \<Rightarrow> if c = CHR ''-'' \<or> c = CHR ''+'' then r else t)
      in if digits_ok ds then Inr ((if neg then - 1 else 1) * digits_value ds)
         else Inl ValueError)"

fun py_int :: "json \<Rightarrow> py_error + int" where
  "py_int JNull = Inl TypeError"
| "py_int (JBool b) = Inr (if b then 1 else 0)"
| "py_int (JInt i) = Inr i"
| "py_int (JStr s) = int_of_str s"
| "py_int (JList xs) = Inl TypeError"
| "py_int (JObj kvs) = Inl TypeError"

text \<open>\<^verbatim>\<open>d[k]\<close>: \<^verbatim>\<open>KeyError\<close> on a dict without the key, \<^verbatim>\<open>TypeError\<close> on anything else.\<close>

fun subscript :: "json \<Rightarrow> string \<Rightarrow> py_error + json" where
  "subscript (JObj kvs) k = (case map_of kvs k of None \<Rightarrow> Inl KeyError | Some v \<Rightarrow> Inr v)"
| "subscript v k = Inl TypeError"

text \<open>\<^verbatim>\<open>d.get(k, default)\<close>: only a dict has the method.\<close>

fun dict_get :: "json \<Rightarrow> string \<Rightarrow> json \<Rightarrow> py_error + json" where
  "dict_get (JObj kvs) k dflt = Inr (case map_of kvs k of None \<Rightarrow> dflt | Some v \<Rightarrow> v)"
| "dict_get v k dflt = Inl AttributeError"

section \<open>The environment of one request\<close>

text \<open>
  What an outbound HTTP call did, by the \<^verbatim>\<open>except\<close> clause that sees it: a timeout, a
  client-library error (\<^verbatim>\<open>aiohttp.ClientError\<close>, \<^verbatim>\<open>requests.RequestException\<close>) with
  its text, any other exception, or a response with its status, what \<^verbatim>\<open>json()\<close> gives
  (the parsed value, or the text of the exception it raises) and the raw body.
\<close>

datatype http_result =
    Timeout
  | ClientError string
  | OtherError string
  | Response int "string + json" string

text \<open>
  Everything the handlers read from outside the repository: the interpreter's
  \<^verbatim>\<open>hash\<close> on strings (seeded per process by CPython), the clock, the provider's two
  endpoints (as functions of the authorization code and of the \<^verbatim>\<open>Authorization\<close>
  header), \<^verbatim>\<open>urllib.parse\<close>, and the settings of \<^verbatim>\<open>config.py\<close> that the health
  document reports.
\<close>

record world =
  py_hash :: "string \<Rightarrow> int"
  time_now :: int
  time_strftime :: string
  token_endpoint :: "string \<Rightarrow> http_result"
  users_endpoint :: "string \<Rightarrow> http_result"
  parse_qs :: "string \<Rightarrow> (string \<times> string list) list"
  urlencode :: "(string \<times> string) list \<Rightarrow> string"
  UVLOOP_ENABLED :: bool
  PORT :: int

subsection \<open>The store\<close>

text \<open>
  A document is a finite map from field names to values; the collection
  \<^verbatim>\<open>oauth_users\<close> is the list of its documents. \<open>db\<close> says that the global \<^verbatim>\<open>db\<close>
  is not \<^verbatim>\<open>None\<close>, \<open>mongo_client\<close> the same for the Lambda's global client;
  \<open>connect_ok\<close> says whether constructing \<^verbatim>\<open>MongoClient\<close> succeeds and \<open>write_ok\<close>
  whether \<^verbatim>\<open>update_one\<close> returns rather than raises.
\<close>

type_synonym document = "string \<rightharpoonup> json"

record mongo =
  mongo_client :: bool
  db :: bool
  connect_ok :: bool
  write_ok :: bool
  oauth_users :: "document list"

text \<open>
  MongoDB's \<^verbatim>\<open>update_one({'_id': key}, {'$set': upd}, upsert=True)\<close>: the first
  document whose \<^verbatim>\<open>_id\<close> is the key gets the fields of \<open>upd\<close> set and keeps its other fields; when
  there is none, a document made of the filter and \<open>upd\<close> is inserted.
\<close>

fun upsert_set :: "json \<Rightarrow> document \<Rightarrow> document list \<Rightarrow> document list" where
  "upsert_set key upd [] = [[''_id'' \<mapsto> key] ++ upd]"
| "upsert_set key upd (d # ds) =
     (if d ''_id'' = Some key then (d ++ upd) # ds else d # upsert_set key upd ds)"

definition update_one :: "mongo \<Rightarrow> json \<Rightarrow> document \<Rightarrow> py_error + mongo" where
  "update_one st key upd =
     (if write_ok st then Inr (st\<lparr>oauth_users := upsert_set key upd (oauth_users st)\<rparr>)
      else Inl OtherException)"

text \<open>The dict literal \<^verbatim>\<open>doc\<close> of \<^verbatim>\<open>save_user_to_pool\<close>, the same in both programs.\<close>

definition user_doc :: "int \<Rightarrow> json \<Rightarrow> json \<Rightarrow> json \<Rightarrow> int \<Rightarrow> document" where
  "user_doc user_id username discriminator avatar connected_at =
     [''_id'' \<mapsto> JInt user_id,
      ''username'' \<mapsto> username,
      ''discriminator'' \<mapsto> discriminator,
      ''avatar'' \<mapsto> avatar,
      ''connected_at'' \<mapsto> JInt connected_at,
      ''logged'' \<mapsto> JBool False,
      ''pulled_guilds'' \<mapsto> JList []]"

subsection \<open>Responses\<close>

text \<open>
  The HTML templates are fixed text around the substituted fields, so a page is the
  template's name with the strings substituted into it: \<^verbatim>\<open>SUCCESS_SEQUENCE\<close> takes
  \<^verbatim>\<open>user_id\<close> and \<^verbatim>\<open>username\<close>, \<^verbatim>\<open>ERROR_SEQUENCE\<close> takes \<^verbatim>\<open>error_hex\<close>,
  \<^verbatim>\<open>error_code\<close>, \<^verbatim>\<open>error_message\<close> and \<^verbatim>\<open>timestamp\<close>.
\<close>

datatype page =
    SuccessPage string string
  | ErrorPage string string string string

datatype body =
    HtmlBody page
  | JsonBody "(string \<times> json) list"

record response =
  status :: int
  body :: body

text \<open>The error code shown by a response, when it is an error page.\<close>

definition failure_code :: "py_error + response \<Rightarrow> string option" where
  "failure_code r =
     (case r of
        Inr resp \<Rightarrow>
          (case body resp of HtmlBody (ErrorPage h c m t) \<Rightarrow> Some c | _ \<Rightarrow> None)
      | Inl e \<Rightarrow> None)"

text \<open>The name shown by a response, when it is the success page.\<close>

definition displayed_name :: "py_error + response \<Rightarrow> string option" where
  "displayed_name r =
     (case r of
        Inr resp \<Rightarrow>
          (case body resp of HtmlBody (SuccessPage i n) \<Rightarrow> Some n | _ \<Rightarrow> None)
      | Inl e \<Rightarrow> None)"

section \<open>service.py\<close>

definition save_user_to_pool ::
  "world \<Rightarrow> mongo \<Rightarrow> int \<Rightarrow> json \<Rightarrow> json \<Rightarrow> json \<Rightarrow> bool \<times> mongo" where
  "save_user_to_pool w st user_id username discriminator avatar =
     (if \<not> db st then (False, st)
      else
        let connected_at = time_now w;
            doc = user_doc user_id username discriminator avatar connected_at
        in case update_one st (JInt user_id) doc of
             Inr st' \<Rightarrow> (True, st')
           | Inl e \<Rightarrow> (False, st))"

definition exchange_code :: "world \<Rightarrow> string \<Rightarrow> json \<times> string option" where
  "exchange_code w code =
     (case token_endpoint w code of
        Response st js text \<Rightarrow>
          if st \<noteq> 200 then
            let error_msg =
                  (case js of
                     Inr (JObj error_data) \<Rightarrow>
                       py_str (case map_of error_data ''error_description'' of
                                 Some v \<Rightarrow> v
                               | None \<Rightarrow>
                                   (case map_of error_data ''error'' of
                                      Some v \<Rightarrow> v
                                    | None \<Rightarrow> JStr ''Unknown error''))
                   | _ \<Rightarrow> if length text > 200 then take 200 text else text)
            in (JNull, Some (''Token exchange failed ('' @ dec_int st @ ''): '' @ error_msg))
          else
            (case js of
               Inr v \<Rightarrow> (v, None)
             | Inl e \<Rightarrow> (JNull, Some (''Invalid JSON response from Discord: '' @ e)))
      | Timeout \<Rightarrow> (JNull, Some ''Token exchange timed out - Discord API slow'')
      | ClientError e \<Rightarrow> (JNull, Some (''Network error during token exchange: '' @ e))
      | OtherError e \<Rightarrow> (JNull, Some (''Unexpected error during token exchange: '' @ e)))"

definition get_user_info :: "world \<Rightarrow> json \<Rightarrow> json \<times> string option" where
  "get_user_info w access_token =
     (case users_endpoint w (''Bearer '' @ py_str access_token) of
        Response st js text \<Rightarrow>
          if st \<noteq> 200 then
            let error_msg =
                  (case js of
                     Inr (JObj error_data) \<Rightarrow>
                       py_str (case map_of error_data ''message'' of
                                 Some v \<Rightarrow> v
                               | None \<Rightarrow> JStr ''Unknown error'')
                   | _ \<Rightarrow> text)
            in (JNull, Some (''Failed to fetch user info ('' @ dec_int st @ ''): '' @ error_msg))
          else
            (case js of
               Inr v \<Rightarrow> (v, None)
             | Inl e \<Rightarrow> (JNull, Some (''Invalid JSON from Discord user API: '' @ e)))
      | Timeout \<Rightarrow> (JNull, Some ''User info request timed out'')
      | ClientError e \<Rightarrow> (JNull, Some (''Network error fetching user info: '' @ e))
      | OtherError e \<Rightarrow> (JNull, Some (''Unexpected error fetching user info: '' @ e)))"

definition render_error :: "world \<Rightarrow> string \<Rightarrow> string \<Rightarrow> response" where
  "render_error w error_code error_message =
     (let error_hex = format_04X (py_hash w error_code mod 0xFFFF);
          timestamp = time_strftime w
      in \<lparr>status = 200,
          body = HtmlBody (ErrorPage error_hex error_code error_message timestamp)\<rparr>)"

text \<open>
  \<^verbatim>\<open>request.query\<close> is a multi-dict: \<^verbatim>\<open>get\<close> gives the first value of a key, so the
  query is the list of its pairs.
\<close>

definition handle_callback ::
  "world \<Rightarrow> mongo \<Rightarrow> (string \<times> string) list \<Rightarrow> (py_error + response) \<times> mongo" where
  "handle_callback w st query =
     (case truthy_str (map_of query ''error'') of
        Some error \<Rightarrow>
          (let error_desc =
                 (case map_of query ''error_description'' of
                    Some d \<Rightarrow> d
                  | None \<Rightarrow> ''Authorization was denied.'')
           in (Inr (render_error w (str_upper error) error_desc), st))
      | None \<Rightarrow>
     (case truthy_str (map_of query ''code'') of
        None \<Rightarrow> (Inr (render_error w ''NO_CODE'' ''No authorization code received.''), st)
      | Some code \<Rightarrow>
     (case exchange_code w code of (token_data, error) \<Rightarrow>
     (case truthy_str error of
        Some error \<Rightarrow> (Inr (render_error w ''TOKEN_ERROR'' error), st)
      | None \<Rightarrow>
     (case dict_get token_data ''access_token'' JNull of
        Inl e \<Rightarrow> (Inl e, st)
      | Inr access_token \<Rightarrow>
     (if \<not> truthy access_token
      then (Inr (render_error w ''NO_TOKEN'' ''No access token in response.''), st)
      else
     (case get_user_info w access_token of (user_data, error) \<Rightarrow>
     (case truthy_str error of
        Some error \<Rightarrow> (Inr (render_error w ''USER_ERROR'' error), st)
      | None \<Rightarrow>
     (case subscript user_data ''id'' of
        Inl e \<Rightarrow> (Inl e, st)
      | Inr id_value \<Rightarrow>
     (case py_int id_value of
        Inl e \<Rightarrow> (Inl e, st)
      | Inr user_id \<Rightarrow>
     (case subscript user_data ''username'' of
        Inl e \<Rightarrow> (Inl e, st)
      | Inr username \<Rightarrow>
     (case dict_get user_data ''discriminator'' (JStr ''0'') of
        Inl e \<Rightarrow> (Inl e, st)
      | Inr discriminator \<Rightarrow>
     (case dict_get user_data ''avatar'' JNull of
        Inl e \<Rightarrow> (Inl e, st)
      | Inr avatar \<Rightarrow>
     (case save_user_to_pool w st user_id username discriminator avatar of (saved, st') \<Rightarrow>
        let display_name =
              (if discriminator \<noteq> JStr ''0''
               then JStr (py_str username @ ''#'' @ py_str discriminator)
               else username)
        in (Inr \<lparr>status = 200,
                 body = HtmlBody (SuccessPage (py_str (JInt user_id)) (py_str display_name))\<rparr>,
            st')))))))))))))))"

definition handle_error :: "world \<Rightarrow> (string \<times> string) list \<Rightarrow> response" where
  "handle_error w query =
     (let error_code = (case map_of query ''code'' of Some c \<Rightarrow> c | None \<Rightarrow> ''AUTH_FAILED'');
          error_message =
            (case map_of query ''message'' of
               Some m \<Rightarrow> m
             | None \<Rightarrow> ''Authorization was denied or expired.'')
      in render_error w error_code error_message)"

text \<open>
  What \<^verbatim>\<open>handle_health\<close> reads from the request: the entries the reverse-proxy
  middleware stores on it, and \<^verbatim>\<open>request.remote\<close>.
\<close>

record request =
  real_ip :: "string option"
  remote :: "string option"
  real_scheme :: "string option"
  request_id :: "string option"

definition handle_health :: "world \<Rightarrow> mongo \<Rightarrow> request \<Rightarrow> response" where
  "handle_health w st req =
     (let is_healthy = db st;
          status_code = (if is_healthy then 200 else 503)
      in \<lparr>status = status_code,
          body = JsonBody
            [(''status'', JStr (if is_healthy then ''healthy'' else ''degraded'')),
             (''timestamp'', JInt (time_now w)),
             (''service'', JStr ''yell-oauth-server''),
             (''version'', JStr ''2.1.0''),
             (''mongodb'', JStr (if db st then ''connected'' else ''disconnected'')),
             (''uvloop'', JBool (UVLOOP_ENABLED w)),
             (''port'', JInt (PORT w)),
             (''aws_optimized'', JBool True),
             (''features'',
                JList [JStr ''gzip'', JStr ''hsts'', JStr ''csp'', JStr ''graceful-shutdown'']),
             (''proxy_headers'',
                JList [JStr ''X-Forwarded-For'', JStr ''X-Forwarded-Proto'',
                       JStr ''X-Forwarded-Host'', JStr ''X-Amzn-Trace-Id'']),
             (''client_ip'',
                (case real_ip req of
                   Some ip \<Rightarrow> JStr ip
                 | None \<Rightarrow> (case remote req of Some r \<Rightarrow> JStr r | None \<Rightarrow> JNull))),
             (''scheme'', JStr (case real_scheme req of Some s \<Rightarrow> s | None \<Rightarrow> ''http'')),
             (''request_id'', JStr (case request_id req of Some i \<Rightarrow> i | None \<Rightarrow> []))]\<rparr>)"

section \<open>lambda_oauth.py\<close>

text \<open>
  The Lambda connects lazily: \<^verbatim>\<open>get_db\<close> constructs the client on first use, and an
  exception of the constructor leaves both globals unset.
\<close>

definition get_db :: "mongo \<Rightarrow> (py_error + bool) \<times> mongo" where
  "get_db st =
     (if \<not> mongo_client st then
        (if connect_ok st then (Inr True, st\<lparr>mongo_client := True, db := True\<rparr>)
         else (Inl OtherException, st))
      else (Inr (db st), st))"

definition save_user_to_pool_lambda ::
  "world \<Rightarrow> mongo \<Rightarrow> int \<Rightarrow> json \<Rightarrow> json \<Rightarrow> json \<Rightarrow> bool \<times> mongo" where
  "save_user_to_pool_lambda w st user_id username discriminator avatar =
     (case get_db st of
        (Inl e, st1) \<Rightarrow> (False, st1)
      | (Inr database, st1) \<Rightarrow>
          if \<not> database then (False, st1)
          else
            let connected_at = time_now w;
                doc = user_doc user_id username discriminator avatar connected_at
            in case update_one st1 (JInt user_id) doc of
                 Inr st2 \<Rightarrow> (True, st2)
               | Inl e \<Rightarrow> (False, st1))"

text \<open>
  With \<^verbatim>\<open>requests\<close>, a body that is not JSON makes \<^verbatim>\<open>resp.json()\<close> raise a
  \<^verbatim>\<open>RequestException\<close>, caught by the last clause; an exception that is neither a
  timeout nor a \<^verbatim>\<open>RequestException\<close> is not caught.
\<close>

definition exchange_code_lambda :: "world \<Rightarrow> string \<Rightarrow> py_error + json \<times> string option" where
  "exchange_code_lambda w code =
     (case token_endpoint w code of
        Response st js text \<Rightarrow>
          if st \<noteq> 200 then
            let error_msg =
                  (case js of
                     Inr (JObj error_data) \<Rightarrow>
                       py_str (case map_of error_data ''error_description'' of
                                 Some v \<Rightarrow> v
                               | None \<Rightarrow>
                                   (case map_of error_data ''error'' of
                                      Some v \<Rightarrow> v
                                    | None \<Rightarrow> JStr ''Unknown error''))
                   | _ \<Rightarrow> take 200 text)
            in Inr (JNull, Some (''Token exchange failed ('' @ dec_int st @ ''): '' @ error_msg))
          else
            (case js of
               Inr v \<Rightarrow> Inr (v, None)
             | Inl e \<Rightarrow> Inr (JNull, Some (''Network error: '' @ e)))
      | Timeout \<Rightarrow> Inr (JNull, Some ''Token exchange timed out'')
      | ClientError e \<Rightarrow> Inr (JNull, Some (''Network error: '' @ e))
      | OtherError e \<Rightarrow> Inl OtherException)"

definition get_user_info_lambda :: "world \<Rightarrow> json \<Rightarrow> py_error + json \<times> string option" where
  "get_user_info_lambda w access_token =
     (case users_endpoint w (''Bearer '' @ py_str access_token) of
        Response st js text \<Rightarrow>
          if st \<noteq> 200 then
            let error_msg =
                  (case js of
                     Inr (JObj error_data) \<Rightarrow>
                       py_str (case map_of error_data ''message'' of
                                 Some v \<Rightarrow> v
                               | None \<Rightarrow> JStr ''Unknown error'')
                   | _ \<Rightarrow> text)
            in Inr (JNull, Some (''Failed to fetch user info ('' @ dec_int st @ ''): '' @ error_msg))
          else
            (case js of
               Inr v \<Rightarrow> Inr (v, None)
             | Inl e \<Rightarrow> Inr (JNull, Some (''Network error: '' @ e)))
      | Timeout \<Rightarrow> Inr (JNull, Some ''User info request timed out'')
      | ClientError e \<Rightarrow> Inr (JNull, Some (''Network error: '' @ e))
      | OtherError e \<Rightarrow> Inl OtherException)"

definition get_oauth_url :: "world \<Rightarrow> string" where
  "get_oauth_url w =
     ''https://discord.com/oauth2/authorize'' @ ''?'' @
       urlencode w
         [(''client_id'', ''1441348516835360870''),
          (''redirect_uri'', ''https://oauth.yell.rest/callback''),
          (''response_type'', ''code''),
          (''scope'', ''identify'')]"

definition render_success :: "int \<Rightarrow> json \<Rightarrow> page" where
  "render_success user_id username = SuccessPage (py_str (JInt user_id)) (py_str username)"

definition render_error_lambda :: "world \<Rightarrow> string \<Rightarrow> string \<Rightarrow> page" where
  "render_error_lambda w error_code error_message =
     (let error_hex = format_04X (py_hash w error_code mod 0xFFFF);
          timestamp = time_strftime w
      in ErrorPage error_hex error_code error_message timestamp)"

definition html_response :: "page \<Rightarrow> int \<Rightarrow> response" where
  "html_response b status_code = \<lparr>status = status_code, body = HtmlBody b\<rparr>"

text \<open>
  \<^verbatim>\<open>query_params\<close> maps a name to the list of its values;
  \<^verbatim>\<open>query_params.get(k, [None])[0]\<close> is the first of them, \<^verbatim>\<open>None\<close> without the key,
  and an \<^verbatim>\<open>IndexError\<close> on an empty list.
\<close>

definition first_param :: "(string \<times> string list) list \<Rightarrow> string \<Rightarrow> py_error + string option" where
  "first_param query_params k =
     (case map_of query_params k of
        None \<Rightarrow> Inr None
      | Some [] \<Rightarrow> Inl IndexError
      | Some (v # vs) \<Rightarrow> Inr (Some v))"

definition handle_callback_lambda ::
  "world \<Rightarrow> mongo \<Rightarrow> (string \<times> string list) list \<Rightarrow> (py_error + response) \<times> mongo" where
  "handle_callback_lambda w st query_params =
     (case first_param query_params ''code'' of
        Inl e \<Rightarrow> (Inl e, st)
      | Inr code \<Rightarrow>
     (case first_param query_params ''error'' of
        Inl e \<Rightarrow> (Inl e, st)
      | Inr error \<Rightarrow>
     (case truthy_str error of
        Some error \<Rightarrow>
          (case first_param query_params ''error_description'' of
             Inl e \<Rightarrow> (Inl e, st)
           | Inr d \<Rightarrow>
               (let error_desc = (case d of Some x \<Rightarrow> x | None \<Rightarrow> ''Authorization was denied.'')
                in (Inr (html_response (render_error_lambda w (str_upper error) error_desc) 200),
                    st)))
      | None \<Rightarrow>
     (case truthy_str code of
        None \<Rightarrow>
          (Inr (html_response
                  (render_error_lambda w ''NO_CODE'' ''No authorization code received.'') 200),
           st)
      | Some code \<Rightarrow>
     (case exchange_code_lambda w code of
        Inl e \<Rightarrow> (Inl e, st)
      | Inr (token_data, err) \<Rightarrow>
     (if truthy_str err \<noteq> None \<or> token_data = JNull
      then (Inr (html_response
                   (render_error_lambda w ''TOKEN_ERROR''
                      (case truthy_str err of Some m \<Rightarrow> m | None \<Rightarrow> ''Token exchange failed''))
                   200),
            st)
      else
     (case dict_get token_data ''access_token'' JNull of
        Inl e \<Rightarrow> (Inl e, st)
      | Inr access_token \<Rightarrow>
     (if \<not> truthy access_token
      then (Inr (html_response
                   (render_error_lambda w ''NO_TOKEN'' ''No access token in response.'') 200),
            st)
      else
     (case get_user_info_lambda w access_token of
        Inl e \<Rightarrow> (Inl e, st)
      | Inr (user_data, err) \<Rightarrow>
     (if truthy_str err \<noteq> None \<or> user_data = JNull
      then (Inr (html_response
                   (render_error_lambda w ''USER_ERROR''
                      (case truthy_str err of
                         Some m \<Rightarrow> m
                       | None \<Rightarrow> ''Failed to fetch user data''))
                   200),
            st)
      else
     (case subscript user_data ''id'' of
        Inl e \<Rightarrow> (Inl e, st)
      | Inr id_value \<Rightarrow>
     (case py_int id_value of
        Inl e \<Rightarrow> (Inl e, st)
      | Inr user_id \<Rightarrow>
     (case subscript user_data ''username'' of
        Inl e \<Rightarrow> (Inl e, st)
      | Inr username \<Rightarrow>
     (case dict_get user_data ''discriminator'' (JStr ''0'') of
        Inl e \<Rightarrow> (Inl e, st)
      | Inr discriminator \<Rightarrow>
     (case dict_get user_data ''avatar'' JNull of
        Inl e \<Rightarrow> (Inl e, st)
      | Inr avatar \<Rightarrow>
     (case save_user_to_pool_lambda w st user_id username discriminator avatar of
        (saved, st') \<Rightarrow>
        let display_name =
              (if discriminator \<noteq> JStr ''0''
               then JStr (py_str username @ ''#'' @ py_str discriminator)
               else username)
        in (Inr (html_response (render_success user_id display_name) 200), st')))))))))))))))))"

definition handle_error_lambda ::
  "world \<Rightarrow> (string \<times> string list) list \<Rightarrow> py_error + response" where
  "handle_error_lambda w query_params =
     (case first_param query_params ''code'' of
        Inl e \<Rightarrow> Inl e
      | Inr c \<Rightarrow>
     (case first_param query_params ''message'' of
        Inl e \<Rightarrow> Inl e
      | Inr m \<Rightarrow>
        let error_code = (case c of Some x \<Rightarrow> x | None \<Rightarrow> ''AUTH_FAILED'');
            error_message =
              (case m of Some x \<Rightarrow> x | None \<Rightarrow> ''Authorization was denied or expired.'')
        in Inr (html_response (render_error_lambda w error_code error_message) 200)))"

text \<open>The entries of the API Gateway event that \<^verbatim>\<open>lambda_handler\<close> reads.\<close>

record event =
  path :: "string option"
  rawPath :: "string option"
  queryStringParameters :: "(string \<times> string) list option"
  rawQueryString :: "string option"

definition lambda_handler ::
  "world \<Rightarrow> mongo \<Rightarrow> event \<Rightarrow> (py_error + response) \<times> mongo" where
  "lambda_handler w st ev =
     (let route =
            (case truthy_str (path ev) of
               Some p \<Rightarrow> p
             | None \<Rightarrow> (case rawPath ev of Some r \<Rightarrow> r | None \<Rightarrow> ''/''));
          query_params =
            (case queryStringParameters ev of
               Some (kv # kvs) \<Rightarrow> map (\<lambda>(k, v). (k, [v])) (kv # kvs)
             | _ \<Rightarrow>
                 (case truthy_str (rawQueryString ev) of
                    Some q \<Rightarrow> parse_qs w q
                  | None \<Rightarrow> []))
      in if route = ''/callback'' then handle_callback_lambda w st query_params
         else if route = ''/error'' then (handle_error_lambda w query_params, st)
         else if route = ''/health'' then
           (Inr \<lparr>status = 200,
                 body = JsonBody
                   [(''status'', JStr ''ok''),
                    (''timestamp'', JInt (time_now w)),
                    (''service'', JStr ''oauth-lambda'')]\<rparr>,
            st)
         else if route = ''/oauth-url'' then
           (Inr \<lparr>status = 200, body = JsonBody [(''oauth_url'', JStr (get_oauth_url w))]\<rparr>, st)
         else
           (Inr \<lparr>status = 404,
                 body = JsonBody
                   [(''error'', JStr ''Not found''),
                    (''available_routes'',
                       JList [JStr ''/callback'', JStr ''/error'', JStr ''/health'',
                              JStr ''/oauth-url''])]\<rparr>,
            st))"

section \<open>Reference behaviour and sample inputs\<close>

text \<open>
  The specification's wording of the code shown on an error page: the hash of the error
  code string masked to 16 bits, as 4 upper-case hexadecimal digits.
\<close>

definition masked_error_hex :: "world \<Rightarrow> string \<Rightarrow> string" where
  "masked_error_hex w error_code = format_04X (py_hash w error_code AND 0xFFFF)"

text \<open>
  A sample environment. Its hash is a stand-in for the interpreter's; its provider knows
  four authorization codes: \<open>alice\<close> (discriminator \<open>0\<close>), \<open>bob\<close> (discriminator
  \<open>4242\<close>), \<open>carol\<close> (whose profile has an id that is no number) and \<open>dave\<close> (whose
  profile has no username), and answers the code \<open>empty\<close> with a token document
  without an access token.
\<close>

definition sample_hash :: "string \<Rightarrow> int" where
  "sample_hash s = 65535 + int (length s)"

definition sample_token_endpoint :: "string \<Rightarrow> http_result" where
  "sample_token_endpoint code =
     (if code = ''alice'' then Response 200 (Inr (JObj [(''access_token'', JStr ''tok-alice'')])) []
      else if code = ''bob'' then Response 200 (Inr (JObj [(''access_token'', JStr ''tok-bob'')])) []
      else if code = ''carol'' then Response 200 (Inr (JObj [(''access_token'', JStr ''tok-carol'')])) []
      else if code = ''dave'' then Response 200 (Inr (JObj [(''access_token'', JStr ''tok-dave'')])) []
      else if code = ''empty'' then Response 200 (Inr (JObj [(''token_type'', JStr ''Bearer'')])) []
      else Response 400 (Inr (JObj [(''error'', JStr ''invalid_grant'')])) [])"

definition sample_users_endpoint :: "string \<Rightarrow> http_result" where
  "sample_users_endpoint header =
     (if header = ''Bearer tok-alice'' then
        Response 200
          (Inr (JObj [(''id'', JStr ''123''), (''username'', JStr ''alice''),
                      (''discriminator'', JStr ''0''), (''avatar'', JNull)])) []
      else if header = ''Bearer tok-bob'' then
        Response 200
          (Inr (JObj [(''id'', JStr ''456''), (''username'', JStr ''bob''),
                      (''discriminator'', JStr ''4242''), (''avatar'', JStr ''a1b2'')])) []
      else if header = ''Bearer tok-carol'' then
        Response 200 (Inr (JObj [(''id'', JStr ''12ab''), (''username'', JStr ''carol'')])) []
      else if header = ''Bearer tok-dave'' then
        Response 200 (Inr (JObj [(''id'', JStr ''789'')])) []
      else Response 401 (Inr (JObj [(''message'', JStr ''401: Unauthorized'')])) [])"

definition sample_world :: world where
  "sample_world =
     \<lparr>py_hash = sample_hash,
      time_now = 1700000000,
      time_strftime = ''2023-11-14 22:13:20'',
      token_endpoint = sample_token_endpoint,
      users_endpoint = sample_users_endpoint,
      parse_qs = (\<lambda>q. []),
      urlencode = (\<lambda>ps. []),
      UVLOOP_ENABLED = False,
      PORT = 8443\<rparr>"

text \<open>A connected, empty store, and a store that is not configured and not reachable.\<close>

definition empty_store :: mongo where
  "empty_store =
     \<lparr>mongo_client = True, db = True, connect_ok = True, write_ok = True, oauth_users = []\<rparr>"

definition down_store :: mongo where
  "down_store =
     \<lparr>mongo_client = False, db = False, connect_ok = False, write_ok = False, oauth_users = []\<rparr>"

text \<open>An API Gateway event for the route \<^verbatim>\<open>/health\<close>, and a request as the middleware left it.\<close>

definition health_event :: event where
  "health_event =
     \<lparr>path = Some ''/health'', rawPath = None, queryStringParameters = None,
      rawQueryString = None\<rparr>"

definition sample_request :: request where
  "sample_request =
     \<lparr>real_ip = Some ''203.0.113.7'', remote = Some ''10.0.0.2'', real_scheme = Some ''https'',
      request_id = Some ''r-1''\<rparr>"

section \<open>Vocabulary of the properties\<close>

text \<open>Whether a result is the success page, sent with status 200.\<close>

definition is_success :: "py_error + response \<Rightarrow> bool" where
  "is_success r =
     (case r of
        Inr resp \<Rightarrow>
          status resp = 200 \<and>
          (case body resp of HtmlBody (SuccessPage i n) \<Rightarrow> True | _ \<Rightarrow> False)
      | Inl e \<Rightarrow> False)"

text \<open>A field of a JSON response.\<close>

definition json_field :: "response \<Rightarrow> string \<Rightarrow> json option" where
  "json_field resp k = (case body resp of JsonBody kvs \<Rightarrow> map_of kvs k | _ \<Rightarrow> None)"

text \<open>The \<^verbatim>\<open>_id\<close> of every document of a collection, and the documents with a given one.\<close>

definition doc_ids :: "document list \<Rightarrow> json option list" where
  "doc_ids docs = map (\<lambda>d. d ''_id'') docs"

definition records_with_id :: "json \<Rightarrow> document list \<Rightarrow> document list" where
  "records_with_id key docs = filter (\<lambda>d. d ''_id'' = Some key) docs"

text \<open>
  A sequence of calls of \<^verbatim>\<open>save_user_to_pool\<close>, each with the environment of its
  request and its arguments.
\<close>

fun save_all :: "mongo \<Rightarrow> (world \<times> int \<times> json \<times> json \<times> json) list \<Rightarrow> mongo" where
  "save_all st [] = st"
| "save_all st ((w, user_id, username, discriminator, avatar) # calls) =
     save_all (snd (save_user_to_pool w st user_id username discriminator avatar)) calls"

fun save_all_lambda :: "mongo \<Rightarrow> (world \<times> int \<times> json \<times> json \<times> json) list \<Rightarrow> mongo" where
  "save_all_lambda st [] = st"
| "save_all_lambda st ((w, user_id, username, discriminator, avatar) # calls) =
     save_all_lambda
       (snd (save_user_to_pool_lambda w st user_id username discriminator avatar)) calls"

text \<open>
  The document a collection holds for an id before an upsert, the empty document when it
  holds none.
\<close>

definition previous_record :: "json \<Rightarrow> document list \<Rightarrow> document" where
  "previous_record key docs = (case records_with_id key docs of [] \<Rightarrow> Map.empty | d # ds \<Rightarrow> d)"

text \<open>
  A connected store that already holds two users, both marked as processed by the
  downstream consumer.
\<close>

definition linked_store :: mongo where
  "linked_store =
     \<lparr>mongo_client = True, db = True, connect_ok = True, write_ok = True,
      oauth_users =
        [[''_id'' \<mapsto> JInt 456, ''username'' \<mapsto> JStr ''bob'', ''discriminator'' \<mapsto> JStr ''4242'',
          ''avatar'' \<mapsto> JStr ''a1b2'', ''connected_at'' \<mapsto> JInt 1600000000,
          ''logged'' \<mapsto> JBool True, ''pulled_guilds'' \<mapsto> JList [JStr ''g1'']],
         [''_id'' \<mapsto> JInt 123, ''username'' \<mapsto> JStr ''al'', ''discriminator'' \<mapsto> JStr ''7'',
          ''avatar'' \<mapsto> JNull, ''connected_at'' \<mapsto> JInt 1650000000,
          ''logged'' \<mapsto> JBool True, ''pulled_guilds'' \<mapsto> JList [JStr ''g1'', JStr ''g2'']]]\<rparr>"

text \<open>The id shown by a response, when it is the success page.\<close>

definition displayed_id :: "py_error + response \<Rightarrow> string option" where
  "displayed_id r =
     (case r of
        Inr resp \<Rightarrow>
          (case body resp of HtmlBody (SuccessPage i n) \<Rightarrow> Some i | _ \<Rightarrow> None)
      | Inl e \<Rightarrow> None)"

text \<open>
  The document that \<^verbatim>\<open>$set\<close> leaves under a user's id: the previous document of that id
  with every field of \<^verbatim>\<open>doc\<close> set.
\<close>

definition merged_record ::
  "world \<Rightarrow> mongo \<Rightarrow> int \<Rightarrow> json \<Rightarrow> json \<Rightarrow> json \<Rightarrow> document" where
  "merged_record w st user_id username discriminator avatar =
     previous_record (JInt user_id) (oauth_users st) ++
       user_doc user_id username discriminator avatar (time_now w)"

text \<open>
  A Lambda container before its first use of the store: no client and no handle yet, the
  store reachable.
\<close>

definition cold_store :: mongo where
  "cold_store =
     \<lparr>mongo_client = False, db = False, connect_ok = True, write_ok = True, oauth_users = []\<rparr>"

text \<open>
  A connected store in which the document of user 123 carries a field \<open>note\<close> that is
  not part of a user record.
\<close>

definition annotated_store :: mongo where
  "annotated_store =
     \<lparr>mongo_client = True, db = True, connect_ok = True, write_ok = True,
      oauth_users =
        [[''_id'' \<mapsto> JInt 456, ''username'' \<mapsto> JStr ''bob'', ''discriminator'' \<mapsto> JStr ''4242'',
          ''avatar'' \<mapsto> JStr ''a1b2'', ''connected_at'' \<mapsto> JInt 1600000000,
          ''logged'' \<mapsto> JBool True, ''pulled_guilds'' \<mapsto> JList [JStr ''g1'']],
         [''_id'' \<mapsto> JInt 123, ''username'' \<mapsto> JStr ''al'', ''discriminator'' \<mapsto> JStr ''7'',
          ''avatar'' \<mapsto> JNull, ''connected_at'' \<mapsto> JInt 1650000000,
          ''logged'' \<mapsto> JBool True, ''pulled_guilds'' \<mapsto> JList [JStr ''g1'', JStr ''g2''],
          ''note'' \<mapsto> JStr ''vip'']]\<rparr>"

text \<open>
  An environment whose token endpoint answers 200 with a payload that is not an object:
  \<^verbatim>\<open>null\<close> for the code \<open>null\<close>, the empty list for any other code.
\<close>

definition bare_token_endpoint :: "string \<Rightarrow> http_result" where
  "bare_token_endpoint code =
     (if code = ''null'' then Response 200 (Inr JNull) ''null''
      else Response 200 (Inr (JList [])) ''[]'')"

definition bare_world :: world where
  "bare_world = sample_world\<lparr>token_endpoint := bare_token_endpoint\<rparr>"

section \<open>Properties\<close>

subsection \<open>Formatting\<close>

lemma hex_digit_in: "d < 16 \<Longrightarrow> hex_digit d \<in> set ''0123456789ABCDEF''"
  unfolding hex_digit_def by (rule nth_mem) simp

lemma hex_nat_chars: "set (hex_nat n) \<subseteq> set ''0123456789ABCDEF''"
proof (induction n rule: hex_nat.induct)
  case (1 n)
  show ?case
  proof (cases "n < 16")
    case True
    then show ?thesis using hex_digit_in [of n] by (subst hex_nat.simps) simp
  next
    case False
    have "n mod 16 < 16" by simp
    then have "hex_digit (n mod 16) \<in> set ''0123456789ABCDEF''" by (rule hex_digit_in)
    with False 1 show ?thesis by (subst hex_nat.simps) simp
  qed
qed

lemma hex_nat_length: "n < 16 ^ k \<Longrightarrow> 0 < k \<Longrightarrow> length (hex_nat n) \<le> k"
proof (induction n arbitrary: k rule: hex_nat.induct)
  case (1 n)
  show ?case
  proof (cases "n < 16")
    case True
    then show ?thesis using "1.prems" by (subst hex_nat.simps) simp
  next
    case False
    obtain j where k: "k = Suc j" using "1.prems" by (cases k) auto
    have j: "0 < j" using False "1.prems"(1) k by (cases j) auto
    have "n div 16 < 16 ^ j" using "1.prems"(1) k by (simp add: less_mult_imp_div_less mult.commute)
    then have "length (hex_nat (n div 16)) \<le> j" using "1.IH" False j by simp
    then show ?thesis using False k by (subst hex_nat.simps) simp
  qed
qed

lemma hex_digit_value_digit: "d < 16 \<Longrightarrow> hex_digit_value (hex_digit d) = d"
proof -
  assume "d < 16"
  then consider "d = 0" | "d = 1" | "d = 2" | "d = 3" | "d = 4" | "d = 5" | "d = 6" | "d = 7"
    | "d = 8" | "d = 9" | "d = 10" | "d = 11" | "d = 12" | "d = 13" | "d = 14" | "d = 15"
    by atomize_elim presburger
  then show ?thesis
    by cases (simp_all add: hex_digit_def hex_digit_value_def)
qed

lemma hex_value_snoc: "hex_value (s @ [c]) = 16 * hex_value s + hex_digit_value c"
  by (simp add: hex_value_def)

lemma hex_value_hex_nat: "hex_value (hex_nat n) = n"
proof (induction n rule: hex_nat.induct)
  case (1 n)
  show ?case
  proof (cases "n < 16")
    case True
    then show ?thesis by (subst hex_nat.simps) (simp add: hex_value_def hex_digit_value_digit)
  next
    case False
    then show ?thesis using 1
      by (subst hex_nat.simps) (simp add: hex_value_snoc hex_digit_value_digit)
  qed
qed

lemma hex_value_zeros: "hex_value (replicate k CHR ''0'' @ s) = hex_value s"
proof -
  have "foldl (\<lambda>acc c. 16 * acc + hex_digit_value c) 0 (replicate k CHR ''0'') = 0"
    by (induction k) (simp_all add: hex_digit_value_def)
  then show ?thesis by (simp add: hex_value_def)
qed

lemma format_04X_small:
  assumes "0 \<le> n" "n < 65536"
  shows "length (format_04X n) = 4"
    and "set (format_04X n) \<subseteq> set ''0123456789ABCDEF''"
    and "int (hex_value (format_04X n)) = n"
proof -
  have "nat n < 16 ^ 4" using assms by simp
  then have len: "length (hex_nat (nat n)) \<le> 4" by (rule hex_nat_length) simp
  have fmt: "format_04X n = replicate (4 - length (hex_nat (nat n))) CHR ''0'' @ hex_nat (nat n)"
    using assms by (simp add: format_04X_def Let_def)
  show "length (format_04X n) = 4" using len by (simp add: fmt)
  show "set (format_04X n) \<subseteq> set ''0123456789ABCDEF''"
    using hex_nat_chars [of "nat n"] by (auto simp: fmt)
  show "int (hex_value (format_04X n)) = n"
    using assms by (simp add: fmt hex_value_zeros hex_value_hex_nat)
qed

subsection \<open>The code shown on an error page\<close>

text \<open>
  C2, as amended. In both programs the error page shows the error code and message it
  was given together with the interpreter's hash of the error code reduced modulo
  \<open>0xFFFF = 65535\<close>, a number from 0 to 65534, written as exactly four upper-case
  hexadecimal digits; the digits are a function of that hash value alone.
\<close>

theorem error_hex_is_hash_mod_65535:
  "render_error w error_code error_message =
     \<lparr>status = 200,
      body = HtmlBody (ErrorPage (format_04X (py_hash w error_code mod 65535))
                         error_code error_message (time_strftime w))\<rparr> \<and>
   render_error_lambda w error_code error_message =
     ErrorPage (format_04X (py_hash w error_code mod 65535))
       error_code error_message (time_strftime w) \<and>
   length (format_04X (py_hash w error_code mod 65535)) = 4 \<and>
   set (format_04X (py_hash w error_code mod 65535)) \<subseteq> set ''0123456789ABCDEF'' \<and>
   int (hex_value (format_04X (py_hash w error_code mod 65535))) = py_hash w error_code mod 65535 \<and>
   hex_value (format_04X (py_hash w error_code mod 65535)) < 65535"
proof -
  let ?n = "py_hash w error_code mod 65535"
  have range: "0 \<le> ?n" "?n < 65536" "?n < 65535" by simp_all
  have read_back: "int (hex_value (format_04X ?n)) = ?n"
    using range(1,2) by (rule format_04X_small)
  have "int (hex_value (format_04X ?n)) < 65535" using range(3) by (simp only: read_back)
  then have below: "hex_value (format_04X ?n) < 65535" by simp
  show ?thesis
    using format_04X_small [OF range(1,2)] below
    by (simp add: render_error_def render_error_lambda_def)
qed

text \<open>
  C2 as stated fails: reducing modulo 65535 is not masking to 16 bits. For the error code
  \<open>NO_CODE\<close> with hash \<open>65542\<close> the page shows \<open>0007\<close>, and the masked hash is \<open>0006\<close>.
\<close>

theorem error_hex_is_not_masked:
  "py_hash sample_world ''NO_CODE'' = 65542 \<and>
   render_error sample_world ''NO_CODE'' ''No authorization code received.'' =
     \<lparr>status = 200,
      body = HtmlBody (ErrorPage ''0007'' ''NO_CODE'' ''No authorization code received.''
                         ''2023-11-14 22:13:20'')\<rparr> \<and>
   render_error_lambda sample_world ''NO_CODE'' ''No authorization code received.'' =
     ErrorPage ''0007'' ''NO_CODE'' ''No authorization code received.'' ''2023-11-14 22:13:20'' \<and>
   masked_error_hex sample_world ''NO_CODE'' = ''0006''"
  by (simp add: render_error_def render_error_lambda_def masked_error_hex_def sample_world_def
      sample_hash_def format_04X_def hex_nat.simps hex_digit_def numeral_3_eq_3)

subsection \<open>The store\<close>

lemma doc_ids_upsert_set:
  assumes "upd ''_id'' = Some key"
  shows "doc_ids (upsert_set key upd docs) =
     (if Some key \<in> set (doc_ids docs) then doc_ids docs else doc_ids docs @ [Some key])"
  using assms by (induction docs) (auto simp: doc_ids_def)

lemma distinct_upsert_set:
  assumes "upd ''_id'' = Some key" and "distinct (doc_ids docs)"
  shows "distinct (doc_ids (upsert_set key upd docs))"
  using assms by (simp add: doc_ids_upsert_set)

lemma others_upsert_set:
  assumes "upd ''_id'' = Some key"
  shows "filter (\<lambda>d. d ''_id'' \<noteq> Some key) (upsert_set key upd docs) =
         filter (\<lambda>d. d ''_id'' \<noteq> Some key) docs"
  using assms by (induction docs) auto

lemma records_upsert_set_absent:
  assumes "upd ''_id'' = Some key" and "records_with_id key docs = []"
  shows "records_with_id key (upsert_set key upd docs) = [upd]"
  using assms
proof (induction docs)
  case Nil
  have "[''_id'' \<mapsto> key] ++ upd = upd"
    using Nil(1) by (auto simp: map_add_def fun_eq_iff split: option.splits)
  then show ?case using Nil(1) by (simp add: records_with_id_def)
next
  case (Cons d docs)
  then show ?case by (simp add: records_with_id_def split: if_splits)
qed

lemma records_upsert_set_present:
  assumes "upd ''_id'' = Some key" and "records_with_id key docs = [old]"
  shows "records_with_id key (upsert_set key upd docs) = [old ++ upd]"
  using assms
proof (induction docs)
  case Nil
  then show ?case by (simp add: records_with_id_def)
next
  case (Cons d docs)
  then show ?case by (auto simp: records_with_id_def split: if_splits)
qed

lemma records_with_id_absent:
  "Some key \<notin> set (doc_ids docs) \<Longrightarrow> records_with_id key docs = []"
  by (induction docs) (auto simp: records_with_id_def doc_ids_def)

lemma records_with_id_distinct:
  assumes "distinct (doc_ids docs)"
  shows "length (records_with_id key docs) \<le> 1"
  using assms
proof (induction docs)
  case Nil
  then show ?case by (simp add: records_with_id_def)
next
  case (Cons d docs)
  show ?case
  proof (cases "d ''_id'' = Some key")
    case True
    then have "Some key \<notin> set (doc_ids docs)" using Cons.prems by (simp add: doc_ids_def)
    then have "records_with_id key docs = []" by (rule records_with_id_absent)
    then show ?thesis using True by (simp add: records_with_id_def)
  next
    case False
    have "length (records_with_id key docs) \<le> 1"
      using Cons.IH Cons.prems by (simp add: doc_ids_def)
    then show ?thesis using False by (simp add: records_with_id_def)
  qed
qed

lemma user_doc_id: "user_doc user_id username discriminator avatar t ''_id'' = Some (JInt user_id)"
  by (simp add: user_doc_def)

lemma user_doc_fields:
  "user_doc user_id username discriminator avatar t ''username'' = Some username"
  "user_doc user_id username discriminator avatar t ''discriminator'' = Some discriminator"
  "user_doc user_id username discriminator avatar t ''avatar'' = Some avatar"
  "user_doc user_id username discriminator avatar t ''connected_at'' = Some (JInt t)"
  "user_doc user_id username discriminator avatar t ''logged'' = Some (JBool False)"
  "user_doc user_id username discriminator avatar t ''pulled_guilds'' = Some (JList [])"
  by (simp_all add: user_doc_def)

lemma map_add_replaces: "dom old \<subseteq> dom upd \<Longrightarrow> old ++ upd = upd"
  by (auto simp: map_add_def fun_eq_iff split: option.splits)

lemma save_user_to_pool_ok:
  assumes "db st" and "write_ok st"
  shows "save_user_to_pool w st user_id username discriminator avatar =
     (True, st\<lparr>oauth_users :=
                 upsert_set (JInt user_id)
                   (user_doc user_id username discriminator avatar (time_now w))
                   (oauth_users st)\<rparr>)"
  using assms by (simp add: save_user_to_pool_def update_one_def)

lemma save_user_to_pool_lambda_ok:
  assumes "fst (get_db st) = Inr True" and "write_ok st"
  shows "fst (save_user_to_pool_lambda w st user_id username discriminator avatar) = True"
    and "oauth_users (snd (save_user_to_pool_lambda w st user_id username discriminator avatar)) =
           upsert_set (JInt user_id)
             (user_doc user_id username discriminator avatar (time_now w)) (oauth_users st)"
  using assms
  by (auto simp: save_user_to_pool_lambda_def get_db_def update_one_def split: if_splits)

lemma save_user_to_pool_distinct:
  assumes "distinct (doc_ids (oauth_users st))"
  shows "distinct (doc_ids (oauth_users
           (snd (save_user_to_pool w st user_id username discriminator avatar))))"
  using assms
  by (simp add: save_user_to_pool_def update_one_def Let_def distinct_upsert_set user_doc_id)

lemma save_user_to_pool_lambda_distinct:
  assumes "distinct (doc_ids (oauth_users st))"
  shows "distinct (doc_ids (oauth_users
           (snd (save_user_to_pool_lambda w st user_id username discriminator avatar))))"
  using assms
  by (simp add: save_user_to_pool_lambda_def get_db_def update_one_def Let_def
      distinct_upsert_set user_doc_id)

lemma save_all_distinct:
  "distinct (doc_ids (oauth_users st)) \<Longrightarrow> distinct (doc_ids (oauth_users (save_all st calls)))"
proof (induction calls arbitrary: st)
  case Nil
  then show ?case by simp
next
  case (Cons c calls)
  obtain w user_id username discriminator avatar
    where c: "c = (w, user_id, username, discriminator, avatar)"
    by (cases c)
  show ?case using Cons.prems unfolding c save_all.simps
    by (intro Cons.IH save_user_to_pool_distinct)
qed

lemma save_all_lambda_distinct:
  "distinct (doc_ids (oauth_users st)) \<Longrightarrow>
     distinct (doc_ids (oauth_users (save_all_lambda st calls)))"
proof (induction calls arbitrary: st)
  case Nil
  then show ?case by simp
next
  case (Cons c calls)
  obtain w user_id username discriminator avatar
    where c: "c = (w, user_id, username, discriminator, avatar)"
    by (cases c)
  show ?case using Cons.prems unfolding c save_all_lambda.simps
    by (intro Cons.IH save_user_to_pool_lambda_distinct)
qed

lemma upsert_set_record:
  assumes "upd ''_id'' = Some key" and "distinct (doc_ids docs)"
  shows "records_with_id key (upsert_set key upd docs) = [previous_record key docs ++ upd]"
proof (cases "records_with_id key docs")
  case Nil
  then show ?thesis using assms(1) by (simp add: records_upsert_set_absent previous_record_def)
next
  case (Cons old rest)
  have "length (records_with_id key docs) \<le> 1" using assms(2) by (rule records_with_id_distinct)
  then have "rest = []" using Cons by simp
  then show ?thesis using Cons assms(1) by (simp add: records_upsert_set_present previous_record_def)
qed

lemma merged_record_fields:
  "merged_record w st user_id username discriminator avatar ''_id'' = Some (JInt user_id)"
  "merged_record w st user_id username discriminator avatar ''username'' = Some username"
  "merged_record w st user_id username discriminator avatar ''discriminator'' =
     Some discriminator"
  "merged_record w st user_id username discriminator avatar ''avatar'' = Some avatar"
  "merged_record w st user_id username discriminator avatar ''connected_at'' =
     Some (JInt (time_now w))"
  "merged_record w st user_id username discriminator avatar ''logged'' = Some (JBool False)"
  "merged_record w st user_id username discriminator avatar ''pulled_guilds'' = Some (JList [])"
  by (simp_all add: merged_record_def map_add_Some_iff user_doc_id user_doc_fields)

lemma merged_record_other:
  assumes "field \<notin> {''_id'', ''username'', ''discriminator'', ''avatar'', ''connected_at'',
                      ''logged'', ''pulled_guilds''}"
  shows "merged_record w st user_id username discriminator avatar field =
         previous_record (JInt user_id) (oauth_users st) field"
  using assms by (simp add: merged_record_def map_add_def user_doc_def)

lemma upsert_facts:
  assumes "docs' = upsert_set (JInt user_id)
                     (user_doc user_id username discriminator avatar (time_now w))
                     (oauth_users st)"
    and "distinct (doc_ids (oauth_users st))"
  shows "records_with_id (JInt user_id) docs' =
           [merged_record w st user_id username discriminator avatar]"
    and "filter (\<lambda>d. d ''_id'' \<noteq> Some (JInt user_id)) docs' =
           filter (\<lambda>d. d ''_id'' \<noteq> Some (JInt user_id)) (oauth_users st)"
  unfolding assms(1)
  using assms(2)
  by (simp_all add: upsert_set_record user_doc_id others_upsert_set merged_record_def)

text \<open>
  C9, as amended. When the store is available, \<^verbatim>\<open>save_user_to_pool\<close> (in both
  programs) leaves exactly one document with the user's id: the previous document of that
  id, if any, with the seven fields of \<^verbatim>\<open>doc\<close> set. In it \<^verbatim>\<open>logged\<close> is false,
  \<^verbatim>\<open>pulled_guilds\<close> is the empty list and \<^verbatim>\<open>connected_at\<close> is the time of this call,
  whatever they were before, and the id, username, discriminator and avatar are those of
  this call. Every other field of the previous document is kept as it was, so the
  previous document is replaced entirely only when it has no field beyond the seven. The
  documents of other ids are untouched. Consequently, after any sequence of calls (on a
  reachable store or not) a collection that had at most one document per id still has at
  most one document per id.
\<close>

theorem upsert_sets_record_fields_and_keeps_one_record_per_id:
  "(db st \<and> write_ok st \<and> distinct (doc_ids (oauth_users st)) \<longrightarrow>
      fst (save_user_to_pool w st user_id username discriminator avatar) \<and>
      records_with_id (JInt user_id)
          (oauth_users (snd (save_user_to_pool w st user_id username discriminator avatar))) =
        [merged_record w st user_id username discriminator avatar] \<and>
      filter (\<lambda>d. d ''_id'' \<noteq> Some (JInt user_id))
          (oauth_users (snd (save_user_to_pool w st user_id username discriminator avatar))) =
        filter (\<lambda>d. d ''_id'' \<noteq> Some (JInt user_id)) (oauth_users st)) \<and>
   (fst (get_db st) = Inr True \<and> write_ok st \<and> distinct (doc_ids (oauth_users st)) \<longrightarrow>
      fst (save_user_to_pool_lambda w st user_id username discriminator avatar) \<and>
      records_with_id (JInt user_id)
          (oauth_users (snd (save_user_to_pool_lambda w st user_id username discriminator avatar))) =
        [merged_record w st user_id username discriminator avatar] \<and>
      filter (\<lambda>d. d ''_id'' \<noteq> Some (JInt user_id))
          (oauth_users (snd (save_user_to_pool_lambda w st user_id username discriminator avatar))) =
        filter (\<lambda>d. d ''_id'' \<noteq> Some (JInt user_id)) (oauth_users st)) \<and>
   merged_record w st user_id username discriminator avatar ''_id'' = Some (JInt user_id) \<and>
   merged_record w st user_id username discriminator avatar ''username'' = Some username \<and>
   merged_record w st user_id username discriminator avatar ''discriminator'' =
     Some discriminator \<and>
   merged_record w st user_id username discriminator avatar ''avatar'' = Some avatar \<and>
   merged_record w st user_id username discriminator avatar ''connected_at'' =
     Some (JInt (time_now w)) \<and>
   merged_record w st user_id username discriminator avatar ''logged'' = Some (JBool False) \<and>
   merged_record w st user_id username discriminator avatar ''pulled_guilds'' =
     Some (JList []) \<and>
   (field \<notin> {''_id'', ''username'', ''discriminator'', ''avatar'', ''connected_at'',
               ''logged'', ''pulled_guilds''} \<longrightarrow>
      merged_record w st user_id username discriminator avatar field =
      previous_record (JInt user_id) (oauth_users st) field) \<and>
   (merged_record w st user_id username discriminator avatar =
      user_doc user_id username discriminator avatar (time_now w) \<longleftrightarrow>
    dom (previous_record (JInt user_id) (oauth_users st))
      \<subseteq> {''_id'', ''username'', ''discriminator'', ''avatar'', ''connected_at'',
          ''logged'', ''pulled_guilds''}) \<and>
   (distinct (doc_ids (oauth_users st)) \<longrightarrow>
      length (records_with_id key (oauth_users (save_all st calls))) \<le> 1 \<and>
      length (records_with_id key (oauth_users (save_all_lambda st calls))) \<le> 1)"
proof -
  let ?doc = "user_doc user_id username discriminator avatar (time_now w)"
  let ?prev = "previous_record (JInt user_id) (oauth_users st)"
  have dom_doc: "dom ?doc = {''_id'', ''username'', ''discriminator'', ''avatar'',
      ''connected_at'', ''logged'', ''pulled_guilds''}"
    by (auto simp: user_doc_def)
  have svc: "fst (save_user_to_pool w st user_id username discriminator avatar) \<and>
      records_with_id (JInt user_id)
          (oauth_users (snd (save_user_to_pool w st user_id username discriminator avatar))) =
        [merged_record w st user_id username discriminator avatar] \<and>
      filter (\<lambda>d. d ''_id'' \<noteq> Some (JInt user_id))
          (oauth_users (snd (save_user_to_pool w st user_id username discriminator avatar))) =
        filter (\<lambda>d. d ''_id'' \<noteq> Some (JInt user_id)) (oauth_users st)"
    if a: "db st \<and> write_ok st \<and> distinct (doc_ids (oauth_users st))"
  proof -
    have eq: "oauth_users (snd (save_user_to_pool w st user_id username discriminator avatar)) =
        upsert_set (JInt user_id) ?doc (oauth_users st)"
      using a by (simp add: save_user_to_pool_ok)
    show ?thesis
      using a upsert_facts [OF eq] by (simp add: save_user_to_pool_ok)
  qed
  have lam: "fst (save_user_to_pool_lambda w st user_id username discriminator avatar) \<and>
      records_with_id (JInt user_id)
          (oauth_users (snd (save_user_to_pool_lambda w st user_id username discriminator avatar))) =
        [merged_record w st user_id username discriminator avatar] \<and>
      filter (\<lambda>d. d ''_id'' \<noteq> Some (JInt user_id))
          (oauth_users (snd (save_user_to_pool_lambda w st user_id username discriminator avatar))) =
        filter (\<lambda>d. d ''_id'' \<noteq> Some (JInt user_id)) (oauth_users st)"
    if a: "fst (get_db st) = Inr True \<and> write_ok st \<and> distinct (doc_ids (oauth_users st))"
  proof -
    have eq: "oauth_users (snd (save_user_to_pool_lambda w st user_id username discriminator avatar)) =
        upsert_set (JInt user_id) ?doc (oauth_users st)"
      using a by (simp add: save_user_to_pool_lambda_ok)
    show ?thesis
      using a upsert_facts [OF eq] by (simp add: save_user_to_pool_lambda_ok)
  qed
  have replaced: "merged_record w st user_id username discriminator avatar = ?doc \<longleftrightarrow>
      dom ?prev \<subseteq> {''_id'', ''username'', ''discriminator'', ''avatar'', ''connected_at'',
          ''logged'', ''pulled_guilds''}"
  proof
    assume eq: "merged_record w st user_id username discriminator avatar = ?doc"
    have "dom ?prev \<subseteq> dom (?prev ++ ?doc)" by auto
    also have "\<dots> = dom ?doc" using eq by (simp add: merged_record_def)
    finally show "dom ?prev \<subseteq> {''_id'', ''username'', ''discriminator'', ''avatar'',
        ''connected_at'', ''logged'', ''pulled_guilds''}"
      by (simp only: dom_doc)
  next
    assume "dom ?prev \<subseteq> {''_id'', ''username'', ''discriminator'', ''avatar'',
        ''connected_at'', ''logged'', ''pulled_guilds''}"
    then have "dom ?prev \<subseteq> dom ?doc" by (simp only: dom_doc)
    then show "merged_record w st user_id username discriminator avatar = ?doc"
      by (simp add: merged_record_def map_add_replaces)
  qed
  have seq: "length (records_with_id key (oauth_users (save_all st calls))) \<le> 1 \<and>
      length (records_with_id key (oauth_users (save_all_lambda st calls))) \<le> 1"
    if d: "distinct (doc_ids (oauth_users st))"
    by (intro conjI records_with_id_distinct save_all_distinct save_all_lambda_distinct d)
  show ?thesis
    using svc lam replaced seq merged_record_fields [of w st user_id username discriminator avatar]
      merged_record_other [of field w st user_id username discriminator avatar]
    by blast
qed

lemma linked_store_facts:
  "db linked_store" "write_ok linked_store" "distinct (doc_ids (oauth_users linked_store))"
  "fst (get_db linked_store) = Inr True"
  by (simp_all add: linked_store_def doc_ids_def get_db_def)

lemma annotated_store_facts:
  "db annotated_store" "write_ok annotated_store"
  "distinct (doc_ids (oauth_users annotated_store))"
  "fst (get_db annotated_store) = Inr True"
  by (simp_all add: annotated_store_def doc_ids_def get_db_def)

lemma previous_record_linked:
  "previous_record (JInt 123) (oauth_users linked_store) =
     [''_id'' \<mapsto> JInt 123, ''username'' \<mapsto> JStr ''al'', ''discriminator'' \<mapsto> JStr ''7'',
      ''avatar'' \<mapsto> JNull, ''connected_at'' \<mapsto> JInt 1650000000,
      ''logged'' \<mapsto> JBool True, ''pulled_guilds'' \<mapsto> JList [JStr ''g1'', JStr ''g2'']]"
  by (simp add: previous_record_def records_with_id_def linked_store_def)

lemma previous_record_annotated:
  "previous_record (JInt 123) (oauth_users annotated_store) =
     [''_id'' \<mapsto> JInt 123, ''username'' \<mapsto> JStr ''al'', ''discriminator'' \<mapsto> JStr ''7'',
      ''avatar'' \<mapsto> JNull, ''connected_at'' \<mapsto> JInt 1650000000,
      ''logged'' \<mapsto> JBool True, ''pulled_guilds'' \<mapsto> JList [JStr ''g1'', JStr ''g2''],
      ''note'' \<mapsto> JStr ''vip'']"
  by (simp add: previous_record_def records_with_id_def annotated_store_def)

text \<open>
  Two instances of re-linking user 123, whose previous document was marked processed
  with two pulled guilds: where that document has the seven fields only, the fresh
  document stands alone under the id; where it also has a field \<open>note\<close>, the one
  document under the id has the fresh values and the old \<open>note\<close>.
\<close>

theorem upsert_sets_record_fields_and_keeps_one_record_per_id_witness:
  "db linked_store \<and> write_ok linked_store \<and> distinct (doc_ids (oauth_users linked_store)) \<and>
   fst (get_db linked_store) = Inr True \<and>
   records_with_id (JInt 123)
       (oauth_users (snd (save_user_to_pool sample_world linked_store 123
                            (JStr ''alice'') (JStr ''0'') JNull))) =
     [user_doc 123 (JStr ''alice'') (JStr ''0'') JNull 1700000000] \<and>
   records_with_id (JInt 123)
       (oauth_users (snd (save_user_to_pool_lambda sample_world linked_store 123
                            (JStr ''alice'') (JStr ''0'') JNull))) =
     [user_doc 123 (JStr ''alice'') (JStr ''0'') JNull 1700000000] \<and>
   db annotated_store \<and> write_ok annotated_store \<and>
   distinct (doc_ids (oauth_users annotated_store)) \<and>
   map (\<lambda>d. (d ''username'', d ''connected_at'', d ''logged'', d ''pulled_guilds'', d ''note''))
       (records_with_id (JInt 123)
          (oauth_users (snd (save_user_to_pool sample_world annotated_store 123
                               (JStr ''alice'') (JStr ''0'') JNull)))) =
     [(Some (JStr ''alice''), Some (JInt 1700000000), Some (JBool False), Some (JList []),
       Some (JStr ''vip''))] \<and>
   length (records_with_id (JInt 123)
     (oauth_users (save_all linked_store
        [(sample_world, 123, JStr ''alice'', JStr ''0'', JNull),
         (sample_world, 123, JStr ''alice'', JStr ''0'', JNull)]))) \<le> 1"
proof -
  have now: "time_now sample_world = 1700000000" by (simp add: sample_world_def)
  have dom_prev: "dom (previous_record (JInt 123) (oauth_users linked_store))
      \<subseteq> {''_id'', ''username'', ''discriminator'', ''avatar'', ''connected_at'', ''logged'',
          ''pulled_guilds''}"
    by (simp add: previous_record_linked)
  have note_kept: "previous_record (JInt 123) (oauth_users annotated_store) ''note'' =
      Some (JStr ''vip'')"
    by (simp add: previous_record_annotated)
  note linked = upsert_sets_record_fields_and_keeps_one_record_per_id
      [of linked_store sample_world 123 "JStr ''alice''" "JStr ''0''" JNull "''note''" "JInt 123"
          "[(sample_world, 123, JStr ''alice'', JStr ''0'', JNull),
            (sample_world, 123, JStr ''alice'', JStr ''0'', JNull)]"]
  note annotated = upsert_sets_record_fields_and_keeps_one_record_per_id
      [of annotated_store sample_world 123 "JStr ''alice''" "JStr ''0''" JNull "''note''"
          "JInt 123" "[]"]
  show ?thesis
    using linked annotated linked_store_facts annotated_store_facts dom_prev note_kept
    by (simp add: now)
qed

text \<open>
  C9 as stated fails where it says that an existing record is replaced: the document of
  user 123 that carries a \<open>note\<close> still carries it after the upsert, in both programs,
  although the document written by the call has no such field.
\<close>

theorem upsert_keeps_foreign_fields:
  "map (\<lambda>d. d ''note'') (records_with_id (JInt 123) (oauth_users annotated_store)) =
     [Some (JStr ''vip'')] \<and>
   user_doc 123 (JStr ''alice'') (JStr ''0'') JNull (time_now sample_world) ''note'' = None \<and>
   map (\<lambda>d. d ''note'')
     (records_with_id (JInt 123)
        (oauth_users (snd (save_user_to_pool sample_world annotated_store 123
                             (JStr ''alice'') (JStr ''0'') JNull)))) =
     [Some (JStr ''vip'')] \<and>
   map (\<lambda>d. d ''note'')
     (records_with_id (JInt 123)
        (oauth_users (snd (save_user_to_pool_lambda sample_world annotated_store 123
                             (JStr ''alice'') (JStr ''0'') JNull)))) =
     [Some (JStr ''vip'')]"
  by (simp add: save_user_to_pool_def save_user_to_pool_lambda_def get_db_def update_one_def
      annotated_store_def records_with_id_def user_doc_def map_add_def)

lemma exchange_code_200:
  assumes "token_endpoint w code = Response 200 (Inr v) raw"
  shows "exchange_code w code = (v, None)" and "exchange_code_lambda w code = Inr (v, None)"
  using assms by (simp_all add: exchange_code_def exchange_code_lambda_def)

lemma get_user_info_200:
  assumes "users_endpoint w (''Bearer '' @ py_str t) = Response 200 (Inr v) raw"
  shows "get_user_info w t = (v, None)" and "get_user_info_lambda w t = Inr (v, None)"
  using assms by (simp_all add: get_user_info_def get_user_info_lambda_def)

lemma failure_code_render_error [simp]:
  "failure_code (Inr (render_error w c m)) = Some c"
  "failure_code (Inr (html_response (render_error_lambda w c m) s)) = Some c"
  by (simp_all add: failure_code_def render_error_def render_error_lambda_def html_response_def)

subsection \<open>Parsing the redirect parameters\<close>

text \<open>
  C8. A callback whose query has neither a \<^verbatim>\<open>code\<close> nor an \<^verbatim>\<open>error\<close> parameter is
  answered, in both programs, with the error page for \<open>NO_CODE\<close>, status 200, and the
  store is not touched.
\<close>

theorem no_code_and_no_error_gives_NO_CODE:
  assumes "map_of query ''code'' = None" and "map_of query ''error'' = None"
    and "map_of query_params ''code'' = None" and "map_of query_params ''error'' = None"
  shows "handle_callback w st query =
           (Inr (render_error w ''NO_CODE'' ''No authorization code received.''), st) \<and>
         handle_callback_lambda w st query_params =
           (Inr (html_response
              (render_error_lambda w ''NO_CODE'' ''No authorization code received.'') 200), st) \<and>
         failure_code (fst (handle_callback w st query)) = Some ''NO_CODE'' \<and>
         failure_code (fst (handle_callback_lambda w st query_params)) = Some ''NO_CODE''"
  using assms by (simp add: handle_callback_def handle_callback_lambda_def first_param_def)

theorem no_code_and_no_error_gives_NO_CODE_witness:
  "map_of [(''state'', ''xyz'')] ''code'' = None \<and>
   map_of [(''state'', ''xyz'')] ''error'' = None \<and>
   map_of [(''state'', [''xyz''])] ''code'' = None \<and>
   map_of [(''state'', [''xyz''])] ''error'' = None \<and>
   failure_code (fst (handle_callback sample_world empty_store [(''state'', ''xyz'')])) =
     Some ''NO_CODE'' \<and>
   failure_code (fst (handle_callback_lambda sample_world empty_store [(''state'', [''xyz''])])) =
     Some ''NO_CODE''"
  using no_code_and_no_error_gives_NO_CODE
    [of "[(''state'', ''xyz'')]" "[(''state'', [''xyz''])]" sample_world empty_store]
  by simp




subsection \<open>The token payload\<close>

text \<open>
  C7, as amended. When the exchange succeeds and the token payload is a JSON object that
  has no \<^verbatim>\<open>access_token\<close> field, both programs answer with the error page for
  \<open>NO_TOKEN\<close>, and neither fetches a profile nor touches the store.
\<close>

theorem missing_access_token_gives_NO_TOKEN:
  assumes "truthy_str (map_of query ''error'') = None"
    and "map_of query ''code'' = Some code"
    and "first_param query_params ''error'' = Inr err" and "truthy_str err = None"
    and "first_param query_params ''code'' = Inr (Some code)"
    and "code \<noteq> []"
    and "token_endpoint w code = Response 200 (Inr (JObj token)) raw_token"
    and "map_of token ''access_token'' = None"
  shows "exchange_code w code = (JObj token, None) \<and>
         exchange_code_lambda w code = Inr (JObj token, None) \<and>
         failure_code (fst (handle_callback w st query)) = Some ''NO_TOKEN'' \<and>
         failure_code (fst (handle_callback_lambda w st query_params)) = Some ''NO_TOKEN'' \<and>
         snd (handle_callback w st query) = st \<and>
         snd (handle_callback_lambda w st query_params) = st"
  using assms
  by (simp add: handle_callback_def handle_callback_lambda_def exchange_code_200)

theorem missing_access_token_gives_NO_TOKEN_witness:
  "token_endpoint sample_world ''empty'' =
     Response 200 (Inr (JObj [(''token_type'', JStr ''Bearer'')])) [] \<and>
   map_of [(''token_type'', JStr ''Bearer'')] ''access_token'' = None \<and>
   failure_code (fst (handle_callback sample_world empty_store [(''code'', ''empty'')])) =
     Some ''NO_TOKEN'' \<and>
   failure_code (fst (handle_callback_lambda sample_world empty_store [(''code'', [''empty''])])) =
     Some ''NO_TOKEN''"
  using missing_access_token_gives_NO_TOKEN
    [of "[(''code'', ''empty'')]" "''empty''" "[(''code'', [''empty''])]" None sample_world
        "[(''token_type'', JStr ''Bearer'')]" "[]" empty_store]
  by (simp add: first_param_def sample_world_def sample_token_endpoint_def)

text \<open>
  C7 as stated fails for a token payload that is not an object. It has no
  \<^verbatim>\<open>access_token\<close> field, and the exchange reports no error; yet for the empty list
  both handlers raise \<^verbatim>\<open>AttributeError\<close> at \<^verbatim>\<open>token_data.get\<close>, and for \<^verbatim>\<open>null\<close>
  \<^verbatim>\<open>service.py\<close> raises the same while the Lambda answers \<open>TOKEN_ERROR\<close>.
\<close>

theorem token_payload_without_fields_is_not_NO_TOKEN:
  "exchange_code bare_world ''list'' = (JList [], None) \<and>
   exchange_code_lambda bare_world ''list'' = Inr (JList [], None) \<and>
   fst (handle_callback bare_world empty_store [(''code'', ''list'')]) = Inl AttributeError \<and>
   fst (handle_callback_lambda bare_world empty_store [(''code'', [''list''])]) =
     Inl AttributeError \<and>
   failure_code (fst (handle_callback bare_world empty_store [(''code'', ''list'')])) = None \<and>
   failure_code (fst (handle_callback_lambda bare_world empty_store [(''code'', [''list''])])) =
     None \<and>
   exchange_code bare_world ''null'' = (JNull, None) \<and>
   exchange_code_lambda bare_world ''null'' = Inr (JNull, None) \<and>
   fst (handle_callback bare_world empty_store [(''code'', ''null'')]) = Inl AttributeError \<and>
   failure_code (fst (handle_callback_lambda bare_world empty_store [(''code'', [''null''])])) =
     Some ''TOKEN_ERROR''"
  by (simp add: handle_callback_def handle_callback_lambda_def first_param_def
      exchange_code_def exchange_code_lambda_def bare_world_def bare_token_endpoint_def
      sample_world_def failure_code_def html_response_def render_error_lambda_def)

subsection \<open>The flow after a successful exchange and fetch\<close>

lemma handle_callback_success:
  assumes "truthy_str (map_of query ''error'') = None"
    and "map_of query ''code'' = Some code" and "code \<noteq> []"
    and "token_endpoint w code = Response 200 (Inr (JObj token)) raw_token"
    and "map_of token ''access_token'' = Some access_token" and "truthy access_token"
    and "users_endpoint w (''Bearer '' @ py_str access_token) =
           Response 200 (Inr (JObj profile)) raw_profile"
    and "map_of profile ''id'' = Some id_value" and "py_int id_value = Inr user_id"
    and "map_of profile ''username'' = Some username"
    and "discriminator = (case map_of profile ''discriminator'' of Some d \<Rightarrow> d | None \<Rightarrow> JStr ''0'')"
    and "avatar = (case map_of profile ''avatar'' of Some a \<Rightarrow> a | None \<Rightarrow> JNull)"
  shows "handle_callback w st query =
     (Inr \<lparr>status = 200,
           body = HtmlBody (SuccessPage (dec_int user_id)
                    (if discriminator \<noteq> JStr ''0''
                     then py_str username @ ''#'' @ py_str discriminator
                     else py_str username))\<rparr>,
      snd (save_user_to_pool w st user_id username discriminator avatar))"
  using assms(1-10) unfolding assms(11,12)
  by (simp add: handle_callback_def exchange_code_200 get_user_info_200 py_str_def
      split: prod.splits)

lemma handle_callback_lambda_success:
  assumes "first_param query_params ''error'' = Inr err" and "truthy_str err = None"
    and "first_param query_params ''code'' = Inr (Some code)" and "code \<noteq> []"
    and "token_endpoint w code = Response 200 (Inr (JObj token)) raw_token"
    and "map_of token ''access_token'' = Some access_token" and "truthy access_token"
    and "users_endpoint w (''Bearer '' @ py_str access_token) =
           Response 200 (Inr (JObj profile)) raw_profile"
    and "map_of profile ''id'' = Some id_value" and "py_int id_value = Inr user_id"
    and "map_of profile ''username'' = Some username"
    and "discriminator = (case map_of profile ''discriminator'' of Some d \<Rightarrow> d | None \<Rightarrow> JStr ''0'')"
    and "avatar = (case map_of profile ''avatar'' of Some a \<Rightarrow> a | None \<Rightarrow> JNull)"
  shows "handle_callback_lambda w st query_params =
     (Inr \<lparr>status = 200,
           body = HtmlBody (SuccessPage (dec_int user_id)
                    (if discriminator \<noteq> JStr ''0''
                     then py_str username @ ''#'' @ py_str discriminator
                     else py_str username))\<rparr>,
      snd (save_user_to_pool_lambda w st user_id username discriminator avatar))"
  using assms(1-11) unfolding assms(12,13)
  by (simp add: handle_callback_lambda_def exchange_code_200 get_user_info_200 py_str_def
      html_response_def render_success_def split: prod.splits)

text \<open>The sample provider's answers for the codes \<open>alice\<close> and \<open>bob\<close>.\<close>

lemma sample_alice:
  "token_endpoint sample_world ''alice'' =
     Response 200 (Inr (JObj [(''access_token'', JStr ''tok-alice'')])) []"
  "users_endpoint sample_world (''Bearer '' @ py_str (JStr ''tok-alice'')) =
     Response 200
       (Inr (JObj [(''id'', JStr ''123''), (''username'', JStr ''alice''),
                   (''discriminator'', JStr ''0''), (''avatar'', JNull)])) []"
  "py_int (JStr ''123'') = Inr 123"
  "dec_int 123 = ''123''"
  by (simp_all add: sample_world_def sample_token_endpoint_def sample_users_endpoint_def
      py_str_def int_of_str_def strip_def is_py_space_def is_digit_def digits_value_def
      dec_int_def dec_nat.simps digit_char_def)

lemma sample_bob:
  "token_endpoint sample_world ''bob'' =
     Response 200 (Inr (JObj [(''access_token'', JStr ''tok-bob'')])) []"
  "users_endpoint sample_world (''Bearer '' @ py_str (JStr ''tok-bob'')) =
     Response 200
       (Inr (JObj [(''id'', JStr ''456''), (''username'', JStr ''bob''),
                   (''discriminator'', JStr ''4242''), (''avatar'', JStr ''a1b2'')])) []"
  "py_int (JStr ''456'') = Inr 456"
  "dec_int 456 = ''456''"
  by (simp_all add: sample_world_def sample_token_endpoint_def sample_users_endpoint_def
      py_str_def int_of_str_def strip_def is_py_space_def is_digit_def digits_value_def
      dec_int_def dec_nat.simps digit_char_def)

text \<open>
  C4. When the parameters parse, the exchange yields an access token and the profile
  fetch yields a profile with a numeric id and a username, both programs answer with the
  success page whatever the state of the store: the answer is the same for any two
  stores, so in particular for a store that is not configured or not reachable. A store
  on which the write fails is left as it was.
\<close>

theorem store_failure_is_not_fatal:
  assumes "truthy_str (map_of query ''error'') = None"
    and "map_of query ''code'' = Some code"
    and "first_param query_params ''error'' = Inr err" and "truthy_str err = None"
    and "first_param query_params ''code'' = Inr (Some code)"
    and "code \<noteq> []"
    and "token_endpoint w code = Response 200 (Inr (JObj token)) raw_token"
    and "map_of token ''access_token'' = Some access_token" and "truthy access_token"
    and "users_endpoint w (''Bearer '' @ py_str access_token) =
           Response 200 (Inr (JObj profile)) raw_profile"
    and "map_of profile ''id'' = Some id_value" and "py_int id_value = Inr user_id"
    and "map_of profile ''username'' = Some username"
  shows "is_success (fst (handle_callback w st query)) \<and>
         is_success (fst (handle_callback_lambda w st query_params)) \<and>
         failure_code (fst (handle_callback w st query)) = None \<and>
         failure_code (fst (handle_callback_lambda w st query_params)) = None \<and>
         fst (handle_callback w st query) = fst (handle_callback w st' query) \<and>
         fst (handle_callback_lambda w st query_params) =
           fst (handle_callback_lambda w st' query_params) \<and>
         (\<not> (db st \<and> write_ok st) \<longrightarrow> snd (handle_callback w st query) = st) \<and>
         (\<not> write_ok st \<longrightarrow>
            oauth_users (snd (handle_callback_lambda w st query_params)) = oauth_users st)"
proof -
  note svc = handle_callback_success [OF assms(1,2,6,7,8,9,10,11,12,13) refl refl]
  note lam = handle_callback_lambda_success [OF assms(3,4,5,6,7,8,9,10,11,12,13) refl refl]
  show ?thesis
    by (simp add: svc lam is_success_def failure_code_def save_user_to_pool_def
        save_user_to_pool_lambda_def get_db_def update_one_def Let_def split: if_splits)
qed

theorem store_failure_is_not_fatal_witness:
  "\<not> db down_store \<and> \<not> write_ok down_store \<and> \<not> connect_ok down_store \<and>
   fst (handle_callback sample_world down_store [(''code'', ''alice'')]) =
     Inr \<lparr>status = 200, body = HtmlBody (SuccessPage ''123'' ''alice'')\<rparr> \<and>
   fst (handle_callback_lambda sample_world down_store [(''code'', [''alice''])]) =
     Inr \<lparr>status = 200, body = HtmlBody (SuccessPage ''123'' ''alice'')\<rparr> \<and>
   is_success (fst (handle_callback sample_world down_store [(''code'', ''alice'')])) \<and>
   is_success (fst (handle_callback_lambda sample_world down_store [(''code'', [''alice''])])) \<and>
   snd (handle_callback sample_world down_store [(''code'', ''alice'')]) = down_store"
proof -
  have s: "fst (handle_callback sample_world empty_store [(''code'', ''alice'')]) =
      Inr \<lparr>status = 200, body = HtmlBody (SuccessPage ''123'' ''alice'')\<rparr>"
    and l: "fst (handle_callback_lambda sample_world empty_store [(''code'', [''alice''])]) =
      Inr \<lparr>status = 200, body = HtmlBody (SuccessPage ''123'' ''alice'')\<rparr>"
    using handle_callback_success [of "[(''code'', ''alice'')]" "''alice''" sample_world
        "[(''access_token'', JStr ''tok-alice'')]" "[]" "JStr ''tok-alice''"
        "[(''id'', JStr ''123''), (''username'', JStr ''alice''),
          (''discriminator'', JStr ''0''), (''avatar'', JNull)]" "[]" "JStr ''123''" 123
        "JStr ''alice''" "JStr ''0''" JNull empty_store]
      handle_callback_lambda_success [of "[(''code'', [''alice''])]" None "''alice''" sample_world
        "[(''access_token'', JStr ''tok-alice'')]" "[]" "JStr ''tok-alice''"
        "[(''id'', JStr ''123''), (''username'', JStr ''alice''),
          (''discriminator'', JStr ''0''), (''avatar'', JNull)]" "[]" "JStr ''123''" 123
        "JStr ''alice''" "JStr ''0''" JNull empty_store]
      sample_alice
    by (simp_all add: first_param_def py_str_def)
  show ?thesis
    using store_failure_is_not_fatal [of "[(''code'', ''alice'')]" "''alice''"
        "[(''code'', [''alice''])]" None sample_world
        "[(''access_token'', JStr ''tok-alice'')]" "[]" "JStr ''tok-alice''"
        "[(''id'', JStr ''123''), (''username'', JStr ''alice''),
          (''discriminator'', JStr ''0''), (''avatar'', JNull)]" "[]" "JStr ''123''" 123
        "JStr ''alice''" down_store empty_store]
      sample_alice s l
    by (simp add: first_param_def down_store_def is_success_def)
qed

text \<open>
  C6. In a successful flow the success page of both programs shows the username followed
  by \<open>#\<close> and the discriminator when the profile has a discriminator that is not the
  string \<open>0\<close>, and the username alone when the profile has no discriminator or the
  discriminator is the string \<open>0\<close>.
\<close>

theorem displayed_name_follows_discriminator:
  assumes "truthy_str (map_of query ''error'') = None"
    and "map_of query ''code'' = Some code"
    and "first_param query_params ''error'' = Inr err" and "truthy_str err = None"
    and "first_param query_params ''code'' = Inr (Some code)"
    and "code \<noteq> []"
    and "token_endpoint w code = Response 200 (Inr (JObj token)) raw_token"
    and "map_of token ''access_token'' = Some access_token" and "truthy access_token"
    and "users_endpoint w (''Bearer '' @ py_str access_token) =
           Response 200 (Inr (JObj profile)) raw_profile"
    and "map_of profile ''id'' = Some id_value" and "py_int id_value = Inr user_id"
    and "map_of profile ''username'' = Some username"
  shows "displayed_name (fst (handle_callback w st query)) =
           Some (case map_of profile ''discriminator'' of
                   None \<Rightarrow> py_str username
                 | Some d \<Rightarrow>
                     if d = JStr ''0'' then py_str username
                     else py_str username @ ''#'' @ py_str d) \<and>
         displayed_name (fst (handle_callback_lambda w st query_params)) =
           displayed_name (fst (handle_callback w st query))"
proof -
  note svc = handle_callback_success [OF assms(1,2,6,7,8,9,10,11,12,13) refl refl]
  note lam = handle_callback_lambda_success [OF assms(3,4,5,6,7,8,9,10,11,12,13) refl refl]
  show ?thesis
    by (simp add: svc lam displayed_name_def split: option.splits)
qed

theorem displayed_name_follows_discriminator_witness:
  "displayed_name (fst (handle_callback sample_world empty_store [(''code'', ''bob'')])) =
     Some ''bob#4242'' \<and>
   displayed_name (fst (handle_callback_lambda sample_world empty_store [(''code'', [''bob''])])) =
     Some ''bob#4242'' \<and>
   displayed_name (fst (handle_callback sample_world empty_store [(''code'', ''alice'')])) =
     Some ''alice'' \<and>
   displayed_name (fst (handle_callback_lambda sample_world empty_store [(''code'', [''alice''])])) =
     Some ''alice''"
  using displayed_name_follows_discriminator [of "[(''code'', ''bob'')]" "''bob''"
        "[(''code'', [''bob''])]" None sample_world
        "[(''access_token'', JStr ''tok-bob'')]" "[]" "JStr ''tok-bob''"
        "[(''id'', JStr ''456''), (''username'', JStr ''bob''),
          (''discriminator'', JStr ''4242''), (''avatar'', JStr ''a1b2'')]" "[]" "JStr ''456''" 456
        "JStr ''bob''" empty_store]
    displayed_name_follows_discriminator [of "[(''code'', ''alice'')]" "''alice''"
        "[(''code'', [''alice''])]" None sample_world
        "[(''access_token'', JStr ''tok-alice'')]" "[]" "JStr ''tok-alice''"
        "[(''id'', JStr ''123''), (''username'', JStr ''alice''),
          (''discriminator'', JStr ''0''), (''avatar'', JNull)]" "[]" "JStr ''123''" 123
        "JStr ''alice''" empty_store]
    sample_alice sample_bob
  by (simp add: first_param_def py_str_def)

subsection \<open>The stored id\<close>

lemma set_doc_ids_upsert_set:
  assumes "upd ''_id'' = Some key"
  shows "set (doc_ids (upsert_set key upd docs)) = insert (Some key) (set (doc_ids docs))"
  using assms by (auto simp: doc_ids_upsert_set)

text \<open>
  C1, as amended. In a successful flow with the store available (for \<^verbatim>\<open>service.py\<close>
  the handle set, for the Lambda \<^verbatim>\<open>get_db\<close> giving a handle, be the container warm or
  cold), both programs answer with the success page showing, in decimal, the integer that
  \<^verbatim>\<open>int()\<close> makes of the profile's id, and store the record under that integer: the
  ids of the collection afterwards are those it had plus that integer, and the one record
  of that id carries it as \<^verbatim>\<open>_id\<close> next to the username as received. The stored id is
  the value as received exactly when the provider sent a JSON integer.
\<close>

theorem stored_id_is_int_of_profile_id:
  assumes "truthy_str (map_of query ''error'') = None"
    and "map_of query ''code'' = Some code"
    and "first_param query_params ''error'' = Inr err" and "truthy_str err = None"
    and "first_param query_params ''code'' = Inr (Some code)"
    and "code \<noteq> []"
    and "token_endpoint w code = Response 200 (Inr (JObj token)) raw_token"
    and "map_of token ''access_token'' = Some access_token" and "truthy access_token"
    and "users_endpoint w (''Bearer '' @ py_str access_token) =
           Response 200 (Inr (JObj profile)) raw_profile"
    and "map_of profile ''id'' = Some id_value" and "py_int id_value = Inr user_id"
    and "map_of profile ''username'' = Some username"
    and "db st" and "write_ok st" and "distinct (doc_ids (oauth_users st))"
    and "fst (get_db lst) = Inr True" and "write_ok lst"
    and "distinct (doc_ids (oauth_users lst))"
  shows "is_success (fst (handle_callback w st query)) \<and>
         displayed_id (fst (handle_callback w st query)) = Some (dec_int user_id) \<and>
         is_success (fst (handle_callback_lambda w lst query_params)) \<and>
         displayed_id (fst (handle_callback_lambda w lst query_params)) =
           Some (dec_int user_id) \<and>
         set (doc_ids (oauth_users (snd (handle_callback w st query)))) =
           insert (Some (JInt user_id)) (set (doc_ids (oauth_users st))) \<and>
         set (doc_ids (oauth_users (snd (handle_callback_lambda w lst query_params)))) =
           insert (Some (JInt user_id)) (set (doc_ids (oauth_users lst))) \<and>
         map (\<lambda>d. (d ''_id'', d ''username''))
             (records_with_id (JInt user_id) (oauth_users (snd (handle_callback w st query)))) =
           [(Some (JInt user_id), Some username)] \<and>
         map (\<lambda>d. (d ''_id'', d ''username''))
             (records_with_id (JInt user_id)
                (oauth_users (snd (handle_callback_lambda w lst query_params)))) =
           [(Some (JInt user_id), Some username)] \<and>
         (JInt user_id = id_value \<longleftrightarrow> (\<exists>i. id_value = JInt i))"
proof -
  let ?disc = "case map_of profile ''discriminator'' of Some d \<Rightarrow> d | None \<Rightarrow> JStr ''0''"
  let ?avatar = "case map_of profile ''avatar'' of Some a \<Rightarrow> a | None \<Rightarrow> JNull"
  let ?doc = "user_doc user_id username ?disc ?avatar (time_now w)"
  note svc = handle_callback_success [OF assms(1,2,6,7,8,9,10,11,12,13) refl refl]
  note lam = handle_callback_lambda_success [OF assms(3,4,5,6,7,8,9,10,11,12,13) refl refl]
  have page: "is_success (fst (handle_callback w st query))"
    "displayed_id (fst (handle_callback w st query)) = Some (dec_int user_id)"
    "is_success (fst (handle_callback_lambda w lst query_params))"
    "displayed_id (fst (handle_callback_lambda w lst query_params)) = Some (dec_int user_id)"
    by (simp_all add: svc lam is_success_def displayed_id_def)
  have s: "oauth_users (snd (handle_callback w st query)) =
      upsert_set (JInt user_id) ?doc (oauth_users st)"
    using assms(14,15) by (simp add: svc save_user_to_pool_ok)
  have l: "oauth_users (snd (handle_callback_lambda w lst query_params)) =
      upsert_set (JInt user_id) ?doc (oauth_users lst)"
    using assms(17,18) by (simp add: lam save_user_to_pool_lambda_ok)
  have rec: "records_with_id (JInt user_id) (upsert_set (JInt user_id) ?doc docs) =
      [previous_record (JInt user_id) docs ++ ?doc]" if "distinct (doc_ids docs)" for docs
    using that by (simp add: upsert_set_record user_doc_id)
  have fields: "(previous_record (JInt user_id) docs ++ ?doc) ''_id'' = Some (JInt user_id)"
    "(previous_record (JInt user_id) docs ++ ?doc) ''username'' = Some username" for docs
    by (simp_all add: map_add_Some_iff user_doc_id user_doc_fields)
  have verbatim: "JInt user_id = id_value \<longleftrightarrow> (\<exists>i. id_value = JInt i)"
    using assms(12) by (cases id_value) auto
  show ?thesis
    using page
    by (simp add: s l rec [OF assms(16)] rec [OF assms(19)] fields set_doc_ids_upsert_set
        user_doc_id verbatim)
qed

text \<open>
  An instance: the profile id \<open>"123"\<close>, on a connected store for \<^verbatim>\<open>service.py\<close> and
  on a cold container for the Lambda.
\<close>

theorem stored_id_is_int_of_profile_id_witness:
  "map_of [(''id'', JStr ''123''), (''username'', JStr ''alice''),
           (''discriminator'', JStr ''0''), (''avatar'', JNull)] ''id'' = Some (JStr ''123'') \<and>
   py_int (JStr ''123'') = Inr 123 \<and>
   db empty_store \<and> \<not> db cold_store \<and> \<not> mongo_client cold_store \<and>
   fst (get_db cold_store) = Inr True \<and>
   displayed_id (fst (handle_callback sample_world empty_store [(''code'', ''alice'')])) =
     Some ''123'' \<and>
   displayed_id (fst (handle_callback_lambda sample_world cold_store [(''code'', [''alice''])])) =
     Some ''123'' \<and>
   set (doc_ids (oauth_users (snd (handle_callback sample_world empty_store
          [(''code'', ''alice'')])))) = {Some (JInt 123)} \<and>
   set (doc_ids (oauth_users (snd (handle_callback_lambda sample_world cold_store
          [(''code'', [''alice''])])))) = {Some (JInt 123)}"
  using stored_id_is_int_of_profile_id [of "[(''code'', ''alice'')]" "''alice''"
        "[(''code'', [''alice''])]" None sample_world
        "[(''access_token'', JStr ''tok-alice'')]" "[]" "JStr ''tok-alice''"
        "[(''id'', JStr ''123''), (''username'', JStr ''alice''),
          (''discriminator'', JStr ''0''), (''avatar'', JNull)]" "[]" "JStr ''123''" 123
        "JStr ''alice''" empty_store cold_store]
    sample_alice
  by (simp add: first_param_def py_str_def empty_store_def cold_store_def get_db_def doc_ids_def)

text \<open>
  C1 as stated fails: the provider's id \<open>"123"\<close>, a string, is stored as the integer
  \<open>123\<close>; no stored record has the id as it was received.
\<close>

theorem stored_id_is_not_verbatim:
  "users_endpoint sample_world ''Bearer tok-alice'' =
     Response 200
       (Inr (JObj [(''id'', JStr ''123''), (''username'', JStr ''alice''),
                   (''discriminator'', JStr ''0''), (''avatar'', JNull)])) [] \<and>
   is_success (fst (handle_callback sample_world empty_store [(''code'', ''alice'')])) \<and>
   doc_ids (oauth_users (snd (handle_callback sample_world empty_store [(''code'', ''alice'')]))) =
     [Some (JInt 123)] \<and>
   doc_ids (oauth_users (snd (handle_callback_lambda sample_world empty_store
      [(''code'', [''alice''])]))) = [Some (JInt 123)] \<and>
   JInt 123 \<noteq> JStr ''123''"
proof -
  note svc = handle_callback_success [of "[(''code'', ''alice'')]" "''alice''" sample_world
        "[(''access_token'', JStr ''tok-alice'')]" "[]" "JStr ''tok-alice''"
        "[(''id'', JStr ''123''), (''username'', JStr ''alice''),
          (''discriminator'', JStr ''0''), (''avatar'', JNull)]" "[]" "JStr ''123''" 123
        "JStr ''alice''" "JStr ''0''" JNull empty_store]
  note lam = handle_callback_lambda_success [of "[(''code'', [''alice''])]" None "''alice''"
        sample_world
        "[(''access_token'', JStr ''tok-alice'')]" "[]" "JStr ''tok-alice''"
        "[(''id'', JStr ''123''), (''username'', JStr ''alice''),
          (''discriminator'', JStr ''0''), (''avatar'', JNull)]" "[]" "JStr ''123''" 123
        "JStr ''alice''" "JStr ''0''" JNull empty_store]
  have s: "handle_callback sample_world empty_store [(''code'', ''alice'')] =
      (Inr \<lparr>status = 200, body = HtmlBody (SuccessPage ''123'' ''alice'')\<rparr>,
       snd (save_user_to_pool sample_world empty_store 123 (JStr ''alice'') (JStr ''0'') JNull))"
    using svc sample_alice by (simp add: py_str_def)
  have l: "handle_callback_lambda sample_world empty_store [(''code'', [''alice''])] =
      (Inr \<lparr>status = 200, body = HtmlBody (SuccessPage ''123'' ''alice'')\<rparr>,
       snd (save_user_to_pool_lambda sample_world empty_store 123 (JStr ''alice'') (JStr ''0'')
              JNull))"
    using lam sample_alice by (simp add: py_str_def first_param_def)
  have e: "users_endpoint sample_world ''Bearer tok-alice'' =
     Response 200
       (Inr (JObj [(''id'', JStr ''123''), (''username'', JStr ''alice''),
                   (''discriminator'', JStr ''0''), (''avatar'', JNull)])) []"
    using sample_alice(2) by (simp add: py_str_def)
  show ?thesis
    unfolding s l e
    by (simp add: is_success_def save_user_to_pool_def save_user_to_pool_lambda_def
        get_db_def update_one_def empty_store_def doc_ids_def user_doc_def)
qed

subsection \<open>Profiles the handlers cannot use\<close>

text \<open>
  C10. A profile that the fetch accepts (status 200, a JSON object) makes both handlers
  raise instead of answering when its id is something \<^verbatim>\<open>int()\<close> rejects
  (\<^verbatim>\<open>ValueError\<close>), or when it has an id but no username (\<^verbatim>\<open>KeyError\<close>), or no id
  at all (\<^verbatim>\<open>KeyError\<close>). Nothing is stored.
\<close>

theorem unusable_profile_raises:
  assumes "truthy_str (map_of query ''error'') = None"
    and "map_of query ''code'' = Some code"
    and "first_param query_params ''error'' = Inr err" and "truthy_str err = None"
    and "first_param query_params ''code'' = Inr (Some code)"
    and "code \<noteq> []"
    and "token_endpoint w code = Response 200 (Inr (JObj token)) raw_token"
    and "map_of token ''access_token'' = Some access_token" and "truthy access_token"
    and "users_endpoint w (''Bearer '' @ py_str access_token) =
           Response 200 (Inr (JObj profile)) raw_profile"
  shows "get_user_info w access_token = (JObj profile, None) \<and>
         get_user_info_lambda w access_token = Inr (JObj profile, None) \<and>
         (map_of profile ''id'' = Some id_value \<and> py_int id_value = Inl ValueError \<longrightarrow>
            handle_callback w st query = (Inl ValueError, st) \<and>
            handle_callback_lambda w st query_params = (Inl ValueError, st)) \<and>
         (map_of profile ''id'' = Some id_value \<and> py_int id_value = Inr user_id \<and>
          map_of profile ''username'' = None \<longrightarrow>
            handle_callback w st query = (Inl KeyError, st) \<and>
            handle_callback_lambda w st query_params = (Inl KeyError, st)) \<and>
         (map_of profile ''id'' = None \<longrightarrow>
            handle_callback w st query = (Inl KeyError, st) \<and>
            handle_callback_lambda w st query_params = (Inl KeyError, st))"
  using assms
  by (simp add: handle_callback_def handle_callback_lambda_def exchange_code_200
      get_user_info_200)

theorem unusable_profile_raises_witness:
  "get_user_info sample_world (JStr ''tok-carol'') =
     (JObj [(''id'', JStr ''12ab''), (''username'', JStr ''carol'')], None) \<and>
   py_int (JStr ''12ab'') = Inl ValueError \<and>
   fst (handle_callback sample_world empty_store [(''code'', ''carol'')]) = Inl ValueError \<and>
   fst (handle_callback_lambda sample_world empty_store [(''code'', [''carol''])]) =
     Inl ValueError \<and>
   get_user_info sample_world (JStr ''tok-dave'') = (JObj [(''id'', JStr ''789'')], None) \<and>
   fst (handle_callback sample_world empty_store [(''code'', ''dave'')]) = Inl KeyError \<and>
   fst (handle_callback_lambda sample_world empty_store [(''code'', [''dave''])]) = Inl KeyError"
proof -
  have carol: "py_int (JStr ''12ab'') = Inl ValueError"
    by (simp add: int_of_str_def strip_def is_py_space_def is_digit_def)
  have dave: "py_int (JStr ''789'') = Inr 789"
    by (simp add: int_of_str_def strip_def is_py_space_def is_digit_def digits_value_def)
  show ?thesis
    using unusable_profile_raises [of "[(''code'', ''carol'')]" "''carol''"
        "[(''code'', [''carol''])]" None sample_world
        "[(''access_token'', JStr ''tok-carol'')]" "[]" "JStr ''tok-carol''"
        "[(''id'', JStr ''12ab''), (''username'', JStr ''carol'')]" "[]"
        "JStr ''12ab''" empty_store 0]
      unusable_profile_raises [of "[(''code'', ''dave'')]" "''dave''"
        "[(''code'', [''dave''])]" None sample_world
        "[(''access_token'', JStr ''tok-dave'')]" "[]" "JStr ''tok-dave''"
        "[(''id'', JStr ''789'')]" "[]"
        "JStr ''789''" empty_store 789]
      carol dave
    by (simp add: first_param_def py_str_def sample_world_def sample_token_endpoint_def
        sample_users_endpoint_def)
qed

subsection \<open>The health endpoint\<close>

text \<open>
  C3, as amended. \<^verbatim>\<open>handle_health\<close> of \<^verbatim>\<open>service.py\<close> answers 200 when the database
  handle is set and 503 when it is unset; either way the JSON document carries the status
  (\<open>healthy\<close> or \<open>degraded\<close>), the timestamp and the store connectivity (\<open>connected\<close>
  or \<open>disconnected\<close>). The route \<^verbatim>\<open>/health\<close> of the Lambda handler always answers 200
  with a status, a timestamp and the service name, says nothing about the store and does
  not look at it.
\<close>

theorem health_reports_store_in_service_only:
  "status (handle_health w st req) = (if db st then 200 else 503) \<and>
   json_field (handle_health w st req) ''status'' =
     Some (JStr (if db st then ''healthy'' else ''degraded'')) \<and>
   json_field (handle_health w st req) ''timestamp'' = Some (JInt (time_now w)) \<and>
   json_field (handle_health w st req) ''mongodb'' =
     Some (JStr (if db st then ''connected'' else ''disconnected'')) \<and>
   lambda_handler w st (ev\<lparr>path := Some ''/health''\<rparr>) =
     (Inr \<lparr>status = 200,
           body = JsonBody [(''status'', JStr ''ok''), (''timestamp'', JInt (time_now w)),
                            (''service'', JStr ''oauth-lambda'')]\<rparr>, st)"
  by (simp add: handle_health_def json_field_def lambda_handler_def Let_def)

theorem health_reports_store_in_service_only_witness:
  "\<not> db down_store \<and> db empty_store \<and>
   status (handle_health sample_world down_store sample_request) = 503 \<and>
   json_field (handle_health sample_world down_store sample_request) ''mongodb'' =
     Some (JStr ''disconnected'') \<and>
   status (handle_health sample_world empty_store sample_request) = 200 \<and>
   json_field (handle_health sample_world empty_store sample_request) ''mongodb'' =
     Some (JStr ''connected'') \<and>
   json_field (handle_health sample_world empty_store sample_request) ''timestamp'' =
     Some (JInt 1700000000)"
  using health_reports_store_in_service_only [of sample_world down_store sample_request health_event]
    health_reports_store_in_service_only [of sample_world empty_store sample_request health_event]
  by (simp add: down_store_def empty_store_def sample_world_def)

text \<open>
  C3 as stated fails on the Lambda handler: with the database handle unset its
  \<^verbatim>\<open>/health\<close> answers 200, not 503, and the document has no store connectivity.
\<close>

theorem lambda_health_ignores_store:
  "\<not> db down_store \<and> \<not> mongo_client down_store \<and>
   lambda_handler sample_world down_store health_event =
     (Inr \<lparr>status = 200,
           body = JsonBody [(''status'', JStr ''ok''), (''timestamp'', JInt 1700000000),
                            (''service'', JStr ''oauth-lambda'')]\<rparr>, down_store)"
  by (simp add: lambda_handler_def health_event_def down_store_def sample_world_def)

end
